theory Spec2Isabelle
  imports Complex_Main "HOL-Library.Word"
begin

section \<open>CCGuidance: the data of ccguidance.c\<close>

text \<open>
  The module \<^verbatim>\<open>flight/Modules/CCGuidance/ccguidance.c\<close> is a callback on GPSPosition
  updates. It reads UAVObjects (settings, flight status, GPS fix, attitude, manual
  control), keeps function-static and file-static variables between calls, and writes the
  StabilizationDesired object, the FlightStatus object and the Guidance alarm.

  The UAVObject headers (\<^verbatim>\<open>flightstatus.h\<close>, \<^verbatim>\<open>ccguidancesettings.h\<close>, ...) are generated
  files that are not part of the module: each enumeration below lists the options the
  module names and one further constructor for every option it does not name.

  C \<^verbatim>\<open>float\<close> and \<^verbatim>\<open>double\<close> values are idealised as exact reals: rounding is not
  modelled. A NaN is made explicit (as \<open>None\<close>) exactly where the code tests
  \<^verbatim>\<open>isnan\<close>.
\<close>

datatype FlightModeOptions =
    FLIGHTSTATUS_FLIGHTMODE_POSITIONHOLD
  | FLIGHTSTATUS_FLIGHTMODE_RETURNTOBASE
  | FLIGHTSTATUS_FLIGHTMODE_OTHER nat

datatype ArmedOptions =
    FLIGHTSTATUS_ARMED_DISARMED
  | FLIGHTSTATUS_ARMED_OTHER nat

datatype flightmode_path =
    FLIGHTMODE_GUIDANCE
  | FLIGHTMODE_OTHERPATH nat

datatype AirframeTypeOptions =
    SYSTEMSETTINGS_AIRFRAMETYPE_FIXEDWING
  | SYSTEMSETTINGS_AIRFRAMETYPE_FIXEDWINGELEVON
  | SYSTEMSETTINGS_AIRFRAMETYPE_FIXEDWINGVTAIL
  | SYSTEMSETTINGS_AIRFRAMETYPE_OTHER nat

datatype GPSStatusOptions =
    GPSPOSITION_STATUS_FIX3D
  | GPSPOSITION_STATUS_OTHER nat

datatype StabilizationModeOptions =
    STABILIZATIONDESIRED_STABILIZATIONMODE_ATTITUDE
  | STABILIZATIONDESIRED_STABILIZATIONMODE_RATE
  | STABILIZATIONDESIRED_STABILIZATIONMODE_OTHER nat

datatype StabilizationModeElem =
    STABILIZATIONDESIRED_STABILIZATIONMODE_ROLL
  | STABILIZATIONDESIRED_STABILIZATIONMODE_PITCH
  | STABILIZATIONDESIRED_STABILIZATIONMODE_YAW

datatype PitchElem =
    CCGUIDANCESETTINGS_PITCH_CLIMB
  | CCGUIDANCESETTINGS_PITCH_SINK
  | CCGUIDANCESETTINGS_PITCH_OTHER nat

datatype RollElem =
    CCGUIDANCESETTINGS_ROLL_NEUTRAL
  | CCGUIDANCESETTINGS_ROLL_MAX
  | CCGUIDANCESETTINGS_ROLL_OTHER nat

datatype AlarmElem =
    SYSTEMALARMS_ALARM_GUIDANCE
  | SYSTEMALARMS_ALARM_MANUALCONTROL
  | SYSTEMALARMS_ALARM_OTHERELEM nat

datatype AlarmOptions =
    SYSTEMALARMS_ALARM_OK
  | SYSTEMALARMS_ALARM_WARNING
  | SYSTEMALARMS_ALARM_ERROR
  | SYSTEMALARMS_ALARM_OTHERLEVEL nat

text \<open>
  The fields of each object that the module touches. Two objects may name a field alike
  in C (\<^verbatim>\<open>Pitch\<close>, \<^verbatim>\<open>Roll\<close>, \<^verbatim>\<open>Yaw\<close>, \<^verbatim>\<open>Throttle\<close>); the settings arrays are
  \<open>SettingsPitch\<close> and \<open>SettingsRoll\<close> here, the attitude's yaw is \<open>AttitudeYaw\<close> and
  the manual throttle is \<open>ManualThrottle\<close>. The fields \<^verbatim>\<open>failesaveEnableRTB\<close> and
  \<^verbatim>\<open>HomeLocationSet\<close> are TRUE/FALSE enumerations, booleans here. Latitudes and
  longitudes are integers (degrees times ten million, which the module scales by 1e-7);
  \<^verbatim>\<open>UpdatePeriod\<close> is compared with a difference of ticks and is an unsigned 32-bit
  number like them; the other numeric fields are floats.
\<close>

record CCGuidanceSettingsData =
  UpdatePeriod :: "32 word"
  RadiusBase :: real
  GroundspeedMinimal :: real
  failesaveEnableRTB :: bool
  HomeLocationSet :: bool
  HomeLocationLatitude :: int
  HomeLocationLongitude :: int
  HomeLocationAltitude :: real
  ReturnTobaseAltitudeOffset :: real
  SettingsPitch :: "PitchElem \<Rightarrow> real"
  SettingsRoll :: "RollElem \<Rightarrow> real"

record FlightStatusData =
  FlightMode :: FlightModeOptions
  Armed :: ArmedOptions

record SystemSettingsData =
  AirframeType :: AirframeTypeOptions

record GPSPositionData =
  Status :: GPSStatusOptions
  Latitude :: int
  Longitude :: int
  Altitude :: real
  GeoidSeparation :: real
  Heading :: real
  Groundspeed :: real

record AttitudeActualData =
  AttitudeYaw :: real

record ManualControlCommandData =
  ManualThrottle :: real

record StabilizationDesiredData =
  Roll :: real
  Pitch :: real
  Yaw :: real
  Throttle :: real
  StabilizationMode :: "StabilizationModeElem \<Rightarrow> StabilizationModeOptions"

text \<open>
  Everything outside the module that one call of the callback can read or write: the
  object store, the alarms and the tick counter. \<^verbatim>\<open>xTaskGetTickCount\<close> is called twice
  in one call (lines 125 and 128): \<open>TickCountFirst\<close> and \<open>TickCount\<close> are the two
  readings. \<open>FlightStatusUpdates\<close> and \<open>StabilizationDesiredUpdates\<close> count the calls of
  \<^verbatim>\<open>FlightStatusSet\<close> and \<^verbatim>\<open>StabilizationDesiredSet\<close>, so that a write of an equal
  value is still seen as a write.
\<close>

record world =
  CCGuidanceSettings :: CCGuidanceSettingsData
  FlightStatus :: FlightStatusData
  SystemSettings :: SystemSettingsData
  GPSPosition :: GPSPositionData
  AttitudeActual :: AttitudeActualData
  ManualControlCommand :: ManualControlCommandData
  StabilizationDesired :: StabilizationDesiredData
  SystemAlarms :: "AlarmElem \<Rightarrow> AlarmOptions"
  FlightStatusUpdates :: nat
  StabilizationDesiredUpdates :: nat
  TickCountFirst :: "32 word"
  TickCount :: "32 word"

text \<open>
  The static variables: \<^verbatim>\<open>positionHoldLast\<close> and \<^verbatim>\<open>calculateCourseStep\<close> of the file
  (line 65) and the function statics of \<^verbatim>\<open>ccguidanceTask\<close> (lines 116 to 121). All of
  them start at zero.
\<close>

record statics =
  positionHoldLast :: "8 word"
  calculateCourseStep :: "8 word"
  lastUpdateTime :: "32 word"
  courseTrue :: real
  courseRelative :: real
  diffHeadingYaw :: real
  positionDesiredNorth :: real
  positionDesiredEast :: real
  positionDesiredDown :: real
  positionActualNorth :: real
  positionActualEast :: real
  DistanceToBase :: real
  StateSaveCurrentPositionToRTB :: "8 word"

definition statics_init :: statics where
  "statics_init =
     \<lparr> positionHoldLast = 0, calculateCourseStep = 0, lastUpdateTime = 0,
       courseTrue = 0, courseRelative = 0, diffHeadingYaw = 0,
       positionDesiredNorth = 0, positionDesiredEast = 0, positionDesiredDown = 0,
       positionActualNorth = 0, positionActualEast = 0, DistanceToBase = 0,
       StateSaveCurrentPositionToRTB = 0 \<rparr>"

text \<open>
  Two macros of headers outside the module are parameters of the model:
  \<^verbatim>\<open>PARSE_FLIGHT_MODE\<close> (of \<^verbatim>\<open>manualcontrol.h\<close>), which maps a flight mode to its branch,
  and the tick period \<^verbatim>\<open>portTICK_RATE_MS\<close> of the scheduler.
\<close>

record platform =
  PARSE_FLIGHT_MODE :: "FlightModeOptions \<Rightarrow> flightmode_path"
  portTICK_RATE_MS :: "32 word"

section \<open>The object store and the alarms\<close>

definition FlightStatusSet :: "FlightStatusData \<Rightarrow> world \<Rightarrow> world" where
  "FlightStatusSet d w =
     w\<lparr>FlightStatus := d, FlightStatusUpdates := Suc (FlightStatusUpdates w)\<rparr>"

definition StabilizationDesiredSet :: "StabilizationDesiredData \<Rightarrow> world \<Rightarrow> world" where
  "StabilizationDesiredSet d w =
     w\<lparr>StabilizationDesired := d,
       StabilizationDesiredUpdates := Suc (StabilizationDesiredUpdates w)\<rparr>"

text \<open>
  Modelled from the spec: the alarm service (\<^verbatim>\<open>AlarmsGet\<close>, \<^verbatim>\<open>AlarmsSet\<close>,
  \<^verbatim>\<open>AlarmsClear\<close> of the system library, which is not part of the module). The spec has
  it "set/clear a named Guidance alarm at severity Error, Warning, OK/cleared": setting
  stores the severity, clearing stores OK.
\<close>

definition AlarmsGet :: "AlarmElem \<Rightarrow> world \<Rightarrow> AlarmOptions" where
  "AlarmsGet a w = SystemAlarms w a"

definition AlarmsSet :: "AlarmElem \<Rightarrow> AlarmOptions \<Rightarrow> world \<Rightarrow> world" where
  "AlarmsSet a l w = w\<lparr>SystemAlarms := (SystemAlarms w)(a := l)\<rparr>"

definition AlarmsClear :: "AlarmElem \<Rightarrow> world \<Rightarrow> world" where
  "AlarmsClear a w = AlarmsSet a SYSTEMALARMS_ALARM_OK w"

section \<open>Navigation math\<close>

definition RAD2DEG :: real where
  "RAD2DEG = 180 / pi"

definition DEG2RAD :: real where
  "DEG2RAD = pi / 180"

text \<open>
  The value of a C expression that may be no number is a \<open>real option\<close>. A quotient with
  divisor zero is an infinity or a NaN in C, and \<^verbatim>\<open>acos\<close> maps each of them, and every
  argument outside \<open>[-1, 1]\<close>, to NaN: \<open>c_div\<close> gives \<open>None\<close> for the divisor zero and
  \<open>c_acos\<close> gives \<open>None\<close> outside \<open>[-1, 1]\<close>. \<open>nan_to_zero\<close> is the statement
  \<^verbatim>\<open>if (isnan(x)) x = 0;\<close>.
\<close>

definition c_div :: "real \<Rightarrow> real \<Rightarrow> real option" where
  "c_div x y = (if y = 0 then None else Some (x / y))"

definition c_acos :: "real option \<Rightarrow> real option" where
  "c_acos q =
     (case q of
        None \<Rightarrow> None
      | Some x \<Rightarrow> if - 1 \<le> x \<and> x \<le> 1 then Some (arccos x) else None)"

definition nan_to_zero :: "real option \<Rightarrow> real" where
  "nan_to_zero a = (case a of None \<Rightarrow> 0 | Some v \<Rightarrow> v)"

definition sphereDistance :: "real \<Rightarrow> real \<Rightarrow> real \<Rightarrow> real \<Rightarrow> real" where
  "sphereDistance lat1 long1 lat2 long2 =
     (let zeta = map_option (\<lambda>a. RAD2DEG * a) (c_acos (Some (
            sin (DEG2RAD * lat1) * sin (DEG2RAD * lat2)
            + cos (DEG2RAD * lat1) * cos (DEG2RAD * lat2) * cos (DEG2RAD * (long2 - long1)))))
      in nan_to_zero zeta)"

text \<open>
  \<^verbatim>\<open>sphereCourse\<close> in its two halves: the magnitude (lines 319 to 323) and the wrapped
  difference of the longitudes (lines 324 to 326).
\<close>

definition courseAngle :: "real \<Rightarrow> real \<Rightarrow> real \<Rightarrow> real" where
  "courseAngle lat1 lat2 zeta =
     nan_to_zero (map_option (\<lambda>a. RAD2DEG * a) (c_acos (c_div
        (sin (DEG2RAD * lat2) - sin (DEG2RAD * lat1) * cos (DEG2RAD * zeta))
        (cos (DEG2RAD * lat1) * sin (DEG2RAD * zeta)))))"

definition courseDiff :: "real \<Rightarrow> real \<Rightarrow> real" where
  "courseDiff long1 long2 =
     (let diff = long2 - long1;
          diff = (if diff > 180 then diff - 360 else diff);
          diff = (if diff < - 180 then diff + 360 else diff)
      in diff)"

definition sphereCourse :: "real \<Rightarrow> real \<Rightarrow> real \<Rightarrow> real \<Rightarrow> real \<Rightarrow> real" where
  "sphereCourse lat1 long1 lat2 long2 zeta =
     (let angle = courseAngle lat1 lat2 zeta;
          diff = courseDiff long1 long2
      in if diff \<ge> 0 then angle else - angle)"

text \<open>
  The two loops \<^verbatim>\<open>while (x < -180.) x += 360.; while (x > 180.) x -= 360.;\<close> of lines
  215, 216 and 242, 243.
\<close>

function wrapBelow :: "real \<Rightarrow> real" where
  "wrapBelow x = (if x < - 180 then wrapBelow (x + 360) else x)"
  by pat_completeness auto
termination
proof (relation "measure (\<lambda>x. nat \<lceil>(- 180 - x) / 360\<rceil>)")
  show "wf (measure (\<lambda>x::real. nat \<lceil>(- 180 - x) / 360\<rceil>))"
    by simp
next
  fix x :: real
  assume less: "x < - 180"
  have shift: "(- 180 - (x + 360)) / 360 = (- 180 - x) / 360 - 1"
    by (simp add: field_simps)
  have pos: "0 < \<lceil>(- 180 - x) / 360\<rceil>"
    using less by (simp add: field_simps)
  have "\<lceil>(- 180 - (x + 360)) / 360\<rceil> = \<lceil>(- 180 - x) / 360\<rceil> - 1"
    unfolding shift by (rule ceiling_diff_one)
  with pos show "(x + 360, x) \<in> measure (\<lambda>x. nat \<lceil>(- 180 - x) / 360\<rceil>)"
    by simp
qed

function wrapAbove :: "real \<Rightarrow> real" where
  "wrapAbove x = (if x > 180 then wrapAbove (x - 360) else x)"
  by pat_completeness auto
termination
proof (relation "measure (\<lambda>x. nat \<lceil>(x - 180) / 360\<rceil>)")
  show "wf (measure (\<lambda>x::real. nat \<lceil>(x - 180) / 360\<rceil>))"
    by simp
next
  fix x :: real
  assume more: "180 < x"
  have shift: "(x - 360 - 180) / 360 = (x - 180) / 360 - 1"
    by (simp add: field_simps)
  have pos: "0 < \<lceil>(x - 180) / 360\<rceil>"
    using more by (simp add: field_simps)
  have "\<lceil>(x - 360 - 180) / 360\<rceil> = \<lceil>(x - 180) / 360\<rceil> - 1"
    unfolding shift by (rule ceiling_diff_one)
  with pos show "(x - 360, x) \<in> measure (\<lambda>x. nat \<lceil>(x - 180) / 360\<rceil>)"
    by simp
qed

declare wrapBelow.simps [simp del]
declare wrapAbove.simps [simp del]

definition wrap180 :: "real \<Rightarrow> real" where
  "wrap180 x = wrapAbove (wrapBelow x)"

text \<open>
  \<^verbatim>\<open>abs\<close> is the integer function of the C library: its \<^verbatim>\<open>float\<close> argument is converted
  to \<^verbatim>\<open>int\<close> first, which discards the fraction (truncation towards zero).
\<close>

definition c_trunc :: "real \<Rightarrow> int" where
  "c_trunc x = (if 0 \<le> x then \<lfloor>x\<rfloor> else \<lceil>x\<rceil>)"

definition c_abs :: "int \<Rightarrow> int" where
  "c_abs i = (if i < 0 then - i else i)"

section \<open>The callback \<^verbatim>\<open>ccguidanceTask\<close>\<close>

text \<open>
  The rate gate of lines 125 to 130: the first call stores a tick reading, and a call
  that comes sooner than the update period after the last update returns at once.
  Ticks are unsigned 32-bit values, so the difference wraps around.
\<close>

definition initUpdateTime :: "world \<Rightarrow> statics \<Rightarrow> statics" where
  "initUpdateTime w st =
     (if lastUpdateTime st = 0 then st\<lparr>lastUpdateTime := TickCountFirst w\<rparr> else st)"

definition rateGated :: "platform \<Rightarrow> world \<Rightarrow> statics \<Rightarrow> bool" where
  "rateGated pf w st =
     (TickCount w - lastUpdateTime (initUpdateTime w st)
        < UpdatePeriod (CCGuidanceSettings w) div portTICK_RATE_MS pf)"

text \<open>
  The failsafe of lines 140 to 144: the condition, and the flight status the rest of the
  call works with.
\<close>

definition failsafeActive :: "world \<Rightarrow> bool" where
  "failsafeActive w =
     (AlarmsGet SYSTEMALARMS_ALARM_MANUALCONTROL w \<noteq> SYSTEMALARMS_ALARM_OK
      \<and> failesaveEnableRTB (CCGuidanceSettings w))"

definition failsafeFlightStatus :: "world \<Rightarrow> FlightStatusData" where
  "failsafeFlightStatus w =
     (if failsafeActive w
      then (FlightStatus w)\<lparr>FlightMode := FLIGHTSTATUS_FLIGHTMODE_RETURNTOBASE\<rparr>
      else FlightStatus w)"

text \<open>The guard of lines 146 to 149.\<close>

definition guard :: "platform \<Rightarrow> FlightStatusData \<Rightarrow> SystemSettingsData \<Rightarrow> bool" where
  "guard pf flightStatus systemSettings =
     (PARSE_FLIGHT_MODE pf (FlightMode flightStatus) = FLIGHTMODE_GUIDANCE
      \<and> (AirframeType systemSettings = SYSTEMSETTINGS_AIRFRAMETYPE_FIXEDWING
         \<or> AirframeType systemSettings = SYSTEMSETTINGS_AIRFRAMETYPE_FIXEDWINGELEVON
         \<or> AirframeType systemSettings = SYSTEMSETTINGS_AIRFRAMETYPE_FIXEDWINGVTAIL))"

text \<open>
  The choice of the target, lines 154 to 168: the current fix on entering position hold
  (or return to base with no home), the home location on entering return to base.
\<close>

definition holdRequested :: "FlightStatusData \<Rightarrow> CCGuidanceSettingsData \<Rightarrow> bool" where
  "holdRequested flightStatus ccguidanceSettings =
     (FlightMode flightStatus = FLIGHTSTATUS_FLIGHTMODE_POSITIONHOLD
      \<or> (FlightMode flightStatus = FLIGHTSTATUS_FLIGHTMODE_RETURNTOBASE
         \<and> HomeLocationSet ccguidanceSettings = False))"

definition homeRequested :: "FlightStatusData \<Rightarrow> CCGuidanceSettingsData \<Rightarrow> bool" where
  "homeRequested flightStatus ccguidanceSettings =
     (FlightMode flightStatus = FLIGHTSTATUS_FLIGHTMODE_RETURNTOBASE
      \<and> HomeLocationSet ccguidanceSettings = True)"

definition selectTarget ::
  "FlightStatusData \<Rightarrow> CCGuidanceSettingsData \<Rightarrow> GPSPositionData \<Rightarrow> statics \<Rightarrow> statics" where
  "selectTarget flightStatus ccguidanceSettings positionActual st =
     (if positionHoldLast st \<noteq> 1 \<and> holdRequested flightStatus ccguidanceSettings
      then st\<lparr>positionDesiredNorth := real_of_int (Latitude positionActual) * (1 / 10 ^ 7),
              positionDesiredEast := real_of_int (Longitude positionActual) * (1 / 10 ^ 7),
              positionDesiredDown :=
                Altitude positionActual + GeoidSeparation positionActual + 1,
              positionHoldLast := 1\<rparr>
      else if positionHoldLast st \<noteq> 2 \<and> homeRequested flightStatus ccguidanceSettings
      then st\<lparr>positionDesiredNorth :=
                real_of_int (HomeLocationLatitude ccguidanceSettings) * (1 / 10 ^ 7),
              positionDesiredEast :=
                real_of_int (HomeLocationLongitude ccguidanceSettings) * (1 / 10 ^ 7),
              positionDesiredDown :=
                HomeLocationAltitude ccguidanceSettings
                + ReturnTobaseAltitudeOffset ccguidanceSettings,
              positionHoldLast := 2\<rparr>
      else st)"

text \<open>
  Step 0 of the course calculation, lines 183 to 195. It changes the statics and the
  local copy \<^verbatim>\<open>ccguidanceSettings\<close> of the settings; both are returned.
\<close>

definition saveHomeLocation ::
  "GPSPositionData \<Rightarrow> CCGuidanceSettingsData \<Rightarrow> CCGuidanceSettingsData" where
  "saveHomeLocation positionActual ccguidanceSettings =
     ccguidanceSettings\<lparr>HomeLocationLatitude := Latitude positionActual,
                        HomeLocationLongitude := Longitude positionActual,
                        HomeLocationAltitude := Altitude positionActual,
                        HomeLocationSet := True\<rparr>"

definition calculateCourseStep0 ::
  "FlightStatusData \<Rightarrow> GPSPositionData \<Rightarrow> CCGuidanceSettingsData \<Rightarrow> statics
     \<Rightarrow> CCGuidanceSettingsData \<times> statics" where
  "calculateCourseStep0 flightStatus positionActual ccguidanceSettings st =
     (let st1 = st\<lparr>positionActualNorth := real_of_int (Latitude positionActual) * (1 / 10 ^ 7),
                   positionActualEast := real_of_int (Longitude positionActual) * (1 / 10 ^ 7)\<rparr>;
          save = (Armed flightStatus = FLIGHTSTATUS_ARMED_DISARMED
                  \<and> StateSaveCurrentPositionToRTB st1 = 0);
          ccguidanceSettings1 =
            (if save then saveHomeLocation positionActual ccguidanceSettings
             else ccguidanceSettings);
          st2 = (if save then st1\<lparr>StateSaveCurrentPositionToRTB := 1\<rparr> else st1)
      in (ccguidanceSettings1, st2\<lparr>calculateCourseStep := calculateCourseStep st2 + 1\<rparr>))"

text \<open>Step 1, lines 202 to 221.\<close>

definition calculateCourseStep1 ::
  "world \<Rightarrow> GPSPositionData \<Rightarrow> CCGuidanceSettingsData \<Rightarrow> statics \<Rightarrow> statics" where
  "calculateCourseStep1 w positionActual ccguidanceSettings st =
     (let st1 = st\<lparr>DistanceToBase :=
                     sphereDistance (positionActualNorth st) (positionActualEast st)
                       (positionDesiredNorth st) (positionDesiredEast st)\<rparr>;
          st2 = (if Groundspeed positionActual > GroundspeedMinimal ccguidanceSettings
                 then st1\<lparr>diffHeadingYaw :=
                        wrap180 (AttitudeYaw (AttitudeActual w) - Heading positionActual)\<rparr>
                 else st1)
      in st2\<lparr>calculateCourseStep := calculateCourseStep st2 + 1\<rparr>)"

text \<open>Step 2, lines 227 to 233.\<close>

definition calculateCourseStep2 :: "statics \<Rightarrow> statics" where
  "calculateCourseStep2 st =
     st\<lparr>courseTrue :=
          sphereCourse (positionActualNorth st) (positionActualEast st)
            (positionDesiredNorth st) (positionDesiredEast st) (DistanceToBase st)\<rparr>"

text \<open>The heading of lines 240 to 247.\<close>

definition outsideRadius :: "CCGuidanceSettingsData \<Rightarrow> statics \<Rightarrow> bool" where
  "outsideRadius ccguidanceSettings st =
     (real_of_int (c_abs (c_trunc (DistanceToBase st * 111111)))
        > RadiusBase ccguidanceSettings)"

definition updateHeading :: "CCGuidanceSettingsData \<Rightarrow> statics \<Rightarrow> statics" where
  "updateHeading ccguidanceSettings st =
     (if outsideRadius ccguidanceSettings st
      then st\<lparr>courseRelative := wrap180 (courseTrue st + diffHeadingYaw st)\<rparr>
      else st)"

text \<open>
  The end of the guidance branch, lines 270 to 274 and 282: the throttle is copied from
  the manual control, the setpoint is written and the step counter is reset.
\<close>

definition publishSetpoint ::
  "StabilizationDesiredData \<Rightarrow> world \<Rightarrow> statics \<Rightarrow> world \<times> statics" where
  "publishSetpoint stabDesired w st =
     (StabilizationDesiredSet
        (stabDesired\<lparr>Throttle := ManualThrottle (ManualControlCommand w)\<rparr>) w,
      st\<lparr>calculateCourseStep := 0\<rparr>)"

text \<open>
  The guidance branch, lines 151 to 275. With a 3D fix the steps 0 and 1 return from
  the function: the world is left as it is and only the statics change. Every other
  value of the counter reaches the heading, the altitude and the write of the setpoint;
  only the value 2 computes the true course first.
\<close>

definition guidanceBranch ::
  "world \<Rightarrow> FlightStatusData \<Rightarrow> CCGuidanceSettingsData \<Rightarrow> statics \<Rightarrow> world \<times> statics" where
  "guidanceBranch w flightStatus ccguidanceSettings st =
     (let positionActual = GPSPosition w;
          st1 = selectTarget flightStatus ccguidanceSettings positionActual st;
          stabDesired = (StabilizationDesired w)\<lparr>StabilizationMode :=
             (StabilizationMode (StabilizationDesired w))
               (STABILIZATIONDESIRED_STABILIZATIONMODE_ROLL :=
                  STABILIZATIONDESIRED_STABILIZATIONMODE_ATTITUDE,
                STABILIZATIONDESIRED_STABILIZATIONMODE_PITCH :=
                  STABILIZATIONDESIRED_STABILIZATIONMODE_ATTITUDE)\<rparr>
      in if Status positionActual = GPSPOSITION_STATUS_FIX3D
         then
           if calculateCourseStep st1 = 0
           then (w, snd (calculateCourseStep0 flightStatus positionActual
                          ccguidanceSettings st1))
           else if calculateCourseStep st1 = 1
           then (w, calculateCourseStep1 w positionActual ccguidanceSettings st1)
           else
             let st2 = (if calculateCourseStep st1 = 2 then calculateCourseStep2 st1
                        else st1);
                 st3 = updateHeading ccguidanceSettings st2;
                 stabDesired1 = stabDesired\<lparr>
                   Yaw := courseRelative st3,
                   Pitch :=
                     (if Altitude positionActual + GeoidSeparation positionActual
                           < positionDesiredDown st3
                      then SettingsPitch ccguidanceSettings CCGUIDANCESETTINGS_PITCH_CLIMB
                      else SettingsPitch ccguidanceSettings CCGUIDANCESETTINGS_PITCH_SINK),
                   Roll := SettingsRoll ccguidanceSettings CCGUIDANCESETTINGS_ROLL_NEUTRAL,
                   StabilizationMode := (StabilizationMode stabDesired)
                     (STABILIZATIONDESIRED_STABILIZATIONMODE_YAW :=
                        STABILIZATIONDESIRED_STABILIZATIONMODE_ATTITUDE)\<rparr>
             in publishSetpoint stabDesired1
                  (AlarmsClear SYSTEMALARMS_ALARM_GUIDANCE w) st3
         else
           publishSetpoint
             (stabDesired\<lparr>
                Yaw := 0,
                Pitch := SettingsPitch ccguidanceSettings CCGUIDANCESETTINGS_PITCH_CLIMB,
                Roll := SettingsRoll ccguidanceSettings CCGUIDANCESETTINGS_ROLL_MAX,
                StabilizationMode := (StabilizationMode stabDesired)
                  (STABILIZATIONDESIRED_STABILIZATIONMODE_YAW :=
                     STABILIZATIONDESIRED_STABILIZATIONMODE_RATE)\<rparr>)
             (AlarmsSet SYSTEMALARMS_ALARM_GUIDANCE SYSTEMALARMS_ALARM_WARNING w) st1)"

text \<open>
  A call that passes the rate gate, lines 134 to 283: the failsafe, the guard, and the
  guidance branch or the reset of the globals.
\<close>

definition guidanceUpdate :: "platform \<Rightarrow> world \<Rightarrow> statics \<Rightarrow> world \<times> statics" where
  "guidanceUpdate pf w st =
     (let ccguidanceSettings = CCGuidanceSettings w;
          flightStatus = failsafeFlightStatus w;
          systemSettings = SystemSettings w;
          w1 = (if failsafeActive w then FlightStatusSet flightStatus w else w)
      in if guard pf flightStatus systemSettings
         then guidanceBranch w1 flightStatus ccguidanceSettings st
         else (AlarmsClear SYSTEMALARMS_ALARM_GUIDANCE w1,
               st\<lparr>positionHoldLast := 0, calculateCourseStep := 0\<rparr>))"

definition ccguidanceTask :: "platform \<Rightarrow> world \<Rightarrow> statics \<Rightarrow> world \<times> statics" where
  "ccguidanceTask pf w st =
     (let st1 = initUpdateTime w st
      in if rateGated pf w st
         then (w, st1)
         else guidanceUpdate pf w (st1\<lparr>lastUpdateTime := TickCount w\<rparr>))"

text \<open>
  A run of the module: the callback is called once for each world of the list, in order.
  The statics are carried from call to call; the world of each call is whatever the
  other modules have made of the stores by then.
\<close>

fun run :: "platform \<Rightarrow> world list \<Rightarrow> statics \<Rightarrow> statics" where
  "run pf [] st = st"
| "run pf (w # ws) st = run pf ws (snd (ccguidanceTask pf w st))"

section \<open>A concrete aircraft\<close>

text \<open>
  A platform whose \<^verbatim>\<open>PARSE_FLIGHT_MODE\<close> sends PositionHold and ReturnToBase to the
  guidance branch, with one tick per millisecond; settings with an update period of 100
  ticks; and a world in which a disarmed fixed wing in PositionHold has a 3D fix.
\<close>

definition pf_ex :: platform where
  "pf_ex =
     \<lparr> PARSE_FLIGHT_MODE =
         (\<lambda>m. if m = FLIGHTSTATUS_FLIGHTMODE_POSITIONHOLD
                 \<or> m = FLIGHTSTATUS_FLIGHTMODE_RETURNTOBASE
              then FLIGHTMODE_GUIDANCE else FLIGHTMODE_OTHERPATH 0),
       portTICK_RATE_MS = 1 \<rparr>"

definition settings_ex :: CCGuidanceSettingsData where
  "settings_ex =
     \<lparr> UpdatePeriod = 100, RadiusBase = 11, GroundspeedMinimal = 1,
       failesaveEnableRTB = True, HomeLocationSet = False,
       HomeLocationLatitude = 0, HomeLocationLongitude = 0, HomeLocationAltitude = 0,
       ReturnTobaseAltitudeOffset = 50,
       SettingsPitch = (\<lambda>_. 0)(CCGUIDANCESETTINGS_PITCH_CLIMB := 15,
                                CCGUIDANCESETTINGS_PITCH_SINK := - 5),
       SettingsRoll = (\<lambda>_. 0)(CCGUIDANCESETTINGS_ROLL_MAX := 35) \<rparr>"

definition world_ex :: world where
  "world_ex =
     \<lparr> CCGuidanceSettings = settings_ex,
       FlightStatus = \<lparr> FlightMode = FLIGHTSTATUS_FLIGHTMODE_POSITIONHOLD,
                        Armed = FLIGHTSTATUS_ARMED_DISARMED \<rparr>,
       SystemSettings = \<lparr> AirframeType = SYSTEMSETTINGS_AIRFRAMETYPE_FIXEDWING \<rparr>,
       GPSPosition = \<lparr> Status = GPSPOSITION_STATUS_FIX3D,
                       Latitude = 480000000, Longitude = 110000000,
                       Altitude = 500, GeoidSeparation = 40,
                       Heading = 90, Groundspeed = 12 \<rparr>,
       AttitudeActual = \<lparr> AttitudeYaw = 100 \<rparr>,
       ManualControlCommand = \<lparr> ManualThrottle = 3 / 5 \<rparr>,
       StabilizationDesired =
         \<lparr> Roll = 1, Pitch = 2, Yaw = 3, Throttle = 0,
           StabilizationMode = (\<lambda>_. STABILIZATIONDESIRED_STABILIZATIONMODE_OTHER 0) \<rparr>,
       SystemAlarms = (\<lambda>_. SYSTEMALARMS_ALARM_OK)
         (SYSTEMALARMS_ALARM_GUIDANCE := SYSTEMALARMS_ALARM_ERROR),
       FlightStatusUpdates = 0, StabilizationDesiredUpdates = 0,
       TickCountFirst = 1000, TickCount = 1000 \<rparr>"

text \<open>Statics of a module that last updated at tick 500 and holds a position.\<close>

definition statics_ex :: statics where
  "statics_ex = statics_init\<lparr>lastUpdateTime := 500, positionHoldLast := 1\<rparr>"

text \<open>The same world with the pilot in a mode outside the guidance branch.\<close>

definition world_manual :: world where
  "world_manual =
     world_ex\<lparr>FlightStatus := \<lparr> FlightMode = FLIGHTSTATUS_FLIGHTMODE_OTHER 0,
                                Armed = FLIGHTSTATUS_ARMED_OTHER 0 \<rparr>\<rparr>"

text \<open>The world of \<open>world_ex\<close> with no fix.\<close>

definition world_nofix :: world where
  "world_nofix =
     world_ex\<lparr>GPSPosition := (GPSPosition world_ex)\<lparr>Status := GPSPOSITION_STATUS_OTHER 0\<rparr>\<rparr>"

text \<open>The world of \<open>world_manual\<close> with the manual control alarm raised.\<close>

definition world_failsafe :: world where
  "world_failsafe =
     world_manual\<lparr>SystemAlarms := (SystemAlarms world_manual)
       (SYSTEMALARMS_ALARM_MANUALCONTROL := SYSTEMALARMS_ALARM_WARNING)\<rparr>"

text \<open>A world at a later tick, and the same aircraft armed, or moved to another fix.\<close>

definition world_at :: "32 word \<Rightarrow> world \<Rightarrow> world" where
  "world_at t w = w\<lparr>TickCountFirst := t, TickCount := t\<rparr>"

definition world_armed :: world where
  "world_armed =
     world_ex\<lparr>FlightStatus := \<lparr> FlightMode = FLIGHTSTATUS_FLIGHTMODE_POSITIONHOLD,
                                Armed = FLIGHTSTATUS_ARMED_OTHER 0 \<rparr>\<rparr>"

definition world_moved :: world where
  "world_moved =
     world_ex\<lparr>GPSPosition := (GPSPosition world_ex)
       \<lparr>Latitude := 481000000, Longitude := 112000000, Altitude := 300\<rparr>\<rparr>"

text \<open>
  The home location is saved in the block of lines 187 to 193, the only place that sets
  \<^verbatim>\<open>StateSaveCurrentPositionToRTB\<close>: a call saves it when it takes the flag from 0 to 1.
  \<open>latchCount\<close> counts the calls of a run that do.
\<close>

definition latchesHome :: "platform \<Rightarrow> world \<Rightarrow> statics \<Rightarrow> bool" where
  "latchesHome pf w st =
     (StateSaveCurrentPositionToRTB st = 0
      \<and> StateSaveCurrentPositionToRTB (snd (ccguidanceTask pf w st)) = 1)"

fun latchCount :: "platform \<Rightarrow> world list \<Rightarrow> statics \<Rightarrow> nat" where
  "latchCount pf [] st = 0"
| "latchCount pf (w # ws) st =
     (if latchesHome pf w st then 1 else 0) + latchCount pf ws (snd (ccguidanceTask pf w st))"

text \<open>
  A flight: the first call, a disarmed call and two armed calls. The theorems below
  let a disarmed call at another fix follow it.
\<close>

definition flight_ex :: "world list" where
  "flight_ex =
     [world_at 1000 world_ex, world_at 1200 world_ex, world_at 1400 world_armed,
      world_at 1600 world_armed]"

text \<open>The desired position: \<^verbatim>\<open>positionDesiredNorth\<close>, \<^verbatim>\<open>East\<close> and \<^verbatim>\<open>Down\<close>.\<close>

definition desiredTarget :: "statics \<Rightarrow> real \<times> real \<times> real" where
  "desiredTarget st = (positionDesiredNorth st, positionDesiredEast st, positionDesiredDown st)"

text \<open>
  A flight that turns its target: a fix at latitude 0, longitude 0 in PositionHold, then
  ReturnToBase with a home at latitude 0, longitude 90, then PositionHold again.
\<close>

definition world_origin :: world where
  "world_origin =
     world_ex\<lparr>GPSPosition := (GPSPosition world_ex)\<lparr>Latitude := 0, Longitude := 0\<rparr>\<rparr>"

definition world_home :: world where
  "world_home =
     world_origin\<lparr>FlightStatus := \<lparr> FlightMode = FLIGHTSTATUS_FLIGHTMODE_RETURNTOBASE,
                                    Armed = FLIGHTSTATUS_ARMED_OTHER 0 \<rparr>,
       CCGuidanceSettings := settings_ex\<lparr>HomeLocationSet := True,
                                          HomeLocationLongitude := 900000000\<rparr>\<rparr>"

definition flight_turn :: "world list" where
  "flight_turn =
     [world_at 1000 world_origin, world_at 1200 world_origin, world_at 1400 world_home,
      world_at 1600 world_origin]"

text \<open>
  Statics at step 2 with a distance of a ten-thousandth of a degree (11.1111 after the
  scaling by 111111) and a relative course of 42 left by an earlier calculation.
\<close>

definition statics_near :: statics where
  "statics_near =
     statics_ex\<lparr>calculateCourseStep := 2, DistanceToBase := 1 / 10000, courseRelative := 42\<rparr>"

text \<open>
  The calls that reach the test of line 187 with the vehicle disarmed: they pass the
  rate gate and the guard, have a 3D fix and find the counter at 0. \<open>disarmedCalls\<close>
  counts them in a run.
\<close>

definition disarmedStep0 :: "platform \<Rightarrow> world \<Rightarrow> statics \<Rightarrow> bool" where
  "disarmedStep0 pf w st =
     (\<not> rateGated pf w st
      \<and> guard pf (failsafeFlightStatus w) (SystemSettings w)
      \<and> Status (GPSPosition w) = GPSPOSITION_STATUS_FIX3D
      \<and> calculateCourseStep st = 0
      \<and> Armed (failsafeFlightStatus w) = FLIGHTSTATUS_ARMED_DISARMED)"

fun disarmedCalls :: "platform \<Rightarrow> world list \<Rightarrow> statics \<Rightarrow> nat" where
  "disarmedCalls pf [] st = 0"
| "disarmedCalls pf (w # ws) st =
     (if disarmedStep0 pf w st then 1 else 0)
       + disarmedCalls pf ws (snd (ccguidanceTask pf w st))"

text \<open>
  A platform whose \<^verbatim>\<open>PARSE_FLIGHT_MODE\<close> keeps every flight mode in the guidance branch,
  so that a mode other than PositionHold and ReturnToBase passes the guard.
\<close>

definition pf_third :: platform where
  "pf_third = \<lparr> PARSE_FLIGHT_MODE = (\<lambda>m. FLIGHTMODE_GUIDANCE), portTICK_RATE_MS = 1 \<rparr>"

section \<open>One call of the callback\<close>

lemma task_gated:
  "rateGated pf w st \<Longrightarrow> ccguidanceTask pf w st = (w, initUpdateTime w st)"
  by (simp add: ccguidanceTask_def)

lemma task_not_gated:
  "\<not> rateGated pf w st \<Longrightarrow>
     ccguidanceTask pf w st =
       guidanceUpdate pf w ((initUpdateTime w st)\<lparr>lastUpdateTime := TickCount w\<rparr>)"
  by (simp add: ccguidanceTask_def)

lemmas ex_defs =
  pf_ex_def settings_ex_def world_ex_def statics_ex_def statics_init_def world_manual_def

lemmas gate_defs = rateGated_def initUpdateTime_def

lemmas failsafe_defs = failsafeFlightStatus_def failsafeActive_def AlarmsGet_def

text \<open>
  C6. In every call that passes the rate gate and in which the guard fails (the flight
  mode the call works with is not in the guidance branch, or the airframe is none of the
  three fixed-wing types), StabilizationDesired is not written (no call of
  StabilizationDesiredSet, the object keeps its value), the Guidance alarm is cleared,
  and \<^verbatim>\<open>positionHoldLast\<close> is reset to 0.
\<close>

theorem guard_fail_resets:
  assumes gate: "\<not> rateGated pf w st"
    and fail: "PARSE_FLIGHT_MODE pf (FlightMode (failsafeFlightStatus w)) \<noteq> FLIGHTMODE_GUIDANCE
       \<or> AirframeType (SystemSettings w) \<notin>
            {SYSTEMSETTINGS_AIRFRAMETYPE_FIXEDWING,
             SYSTEMSETTINGS_AIRFRAMETYPE_FIXEDWINGELEVON,
             SYSTEMSETTINGS_AIRFRAMETYPE_FIXEDWINGVTAIL}"
  shows "StabilizationDesiredUpdates (fst (ccguidanceTask pf w st))
           = StabilizationDesiredUpdates w
       \<and> StabilizationDesired (fst (ccguidanceTask pf w st)) = StabilizationDesired w
       \<and> AlarmsGet SYSTEMALARMS_ALARM_GUIDANCE (fst (ccguidanceTask pf w st))
           = SYSTEMALARMS_ALARM_OK
       \<and> positionHoldLast (snd (ccguidanceTask pf w st)) = 0"
proof -
  have ng: "\<not> guard pf (failsafeFlightStatus w) (SystemSettings w)"
    using fail by (auto simp: guard_def)
  show ?thesis
    using ng by (simp add: task_not_gated [OF gate] guidanceUpdate_def Let_def
        AlarmsClear_def AlarmsSet_def AlarmsGet_def FlightStatusSet_def)
qed

theorem guard_fail_resets_witness:
  "positionHoldLast statics_ex = 1
   \<and> AlarmsGet SYSTEMALARMS_ALARM_GUIDANCE world_manual = SYSTEMALARMS_ALARM_ERROR
   \<and> StabilizationDesiredUpdates (fst (ccguidanceTask pf_ex world_manual statics_ex)) = 0
   \<and> StabilizationDesired (fst (ccguidanceTask pf_ex world_manual statics_ex))
       = StabilizationDesired world_manual
   \<and> AlarmsGet SYSTEMALARMS_ALARM_GUIDANCE (fst (ccguidanceTask pf_ex world_manual statics_ex))
       = SYSTEMALARMS_ALARM_OK
   \<and> positionHoldLast (snd (ccguidanceTask pf_ex world_manual statics_ex)) = 0"
proof -
  have gate: "\<not> rateGated pf_ex world_manual statics_ex"
    by (simp add: gate_defs ex_defs)
  have fail: "PARSE_FLIGHT_MODE pf_ex (FlightMode (failsafeFlightStatus world_manual))
      \<noteq> FLIGHTMODE_GUIDANCE"
    by (simp add: failsafe_defs ex_defs)
  have start: "positionHoldLast statics_ex = 1
     \<and> AlarmsGet SYSTEMALARMS_ALARM_GUIDANCE world_manual = SYSTEMALARMS_ALARM_ERROR
     \<and> StabilizationDesiredUpdates world_manual = 0"
    by (simp add: AlarmsGet_def ex_defs)
  from guard_fail_resets [OF gate disjI1 [OF fail]] start show ?thesis
    by simp
qed

subsection \<open>What the guidance branch leaves alone\<close>

lemma selectTarget_frame [simp]:
  "calculateCourseStep (selectTarget fs cs gps st) = calculateCourseStep st"
  "lastUpdateTime (selectTarget fs cs gps st) = lastUpdateTime st"
  "StateSaveCurrentPositionToRTB (selectTarget fs cs gps st) = StateSaveCurrentPositionToRTB st"
  "courseTrue (selectTarget fs cs gps st) = courseTrue st"
  "courseRelative (selectTarget fs cs gps st) = courseRelative st"
  "diffHeadingYaw (selectTarget fs cs gps st) = diffHeadingYaw st"
  "DistanceToBase (selectTarget fs cs gps st) = DistanceToBase st"
  "positionActualNorth (selectTarget fs cs gps st) = positionActualNorth st"
  "positionActualEast (selectTarget fs cs gps st) = positionActualEast st"
  by (simp_all add: selectTarget_def)

lemmas step_defs =
  calculateCourseStep0_def calculateCourseStep1_def calculateCourseStep2_def
  updateHeading_def publishSetpoint_def

lemmas store_defs =
  StabilizationDesiredSet_def FlightStatusSet_def AlarmsSet_def AlarmsClear_def

lemmas task_defs =
  ccguidanceTask_def guidanceUpdate_def guidanceBranch_def Let_def step_defs store_defs
  selectTarget_def holdRequested_def homeRequested_def failsafe_defs guard_def gate_defs
  saveHomeLocation_def

lemma guidanceBranch_target:
  "positionHoldLast (snd (guidanceBranch w fs cs st))
     = positionHoldLast (selectTarget fs cs (GPSPosition w) st)"
  "positionDesiredNorth (snd (guidanceBranch w fs cs st))
     = positionDesiredNorth (selectTarget fs cs (GPSPosition w) st)"
  "positionDesiredEast (snd (guidanceBranch w fs cs st))
     = positionDesiredEast (selectTarget fs cs (GPSPosition w) st)"
  "positionDesiredDown (snd (guidanceBranch w fs cs st))
     = positionDesiredDown (selectTarget fs cs (GPSPosition w) st)"
  by (simp_all add: guidanceBranch_def Let_def step_defs)

lemma guidanceBranch_world:
  "FlightStatus (fst (guidanceBranch w fs cs st)) = FlightStatus w"
  "FlightStatusUpdates (fst (guidanceBranch w fs cs st)) = FlightStatusUpdates w"
  "CCGuidanceSettings (fst (guidanceBranch w fs cs st)) = CCGuidanceSettings w"
  "SystemAlarms (fst (guidanceBranch w fs cs st)) SYSTEMALARMS_ALARM_MANUALCONTROL
     = SystemAlarms w SYSTEMALARMS_ALARM_MANUALCONTROL"
  by (simp_all add: guidanceBranch_def Let_def step_defs store_defs)

lemma guidanceUpdate_settings:
  "CCGuidanceSettings (fst (guidanceUpdate pf w st)) = CCGuidanceSettings w"
  "SystemAlarms (fst (guidanceUpdate pf w st)) SYSTEMALARMS_ALARM_MANUALCONTROL
     = SystemAlarms w SYSTEMALARMS_ALARM_MANUALCONTROL"
  by (simp_all add: guidanceUpdate_def Let_def guidanceBranch_world store_defs)

text \<open>
  C7. In every call that passes the rate gate with the guard true and a fix that is not
  3D, that one call writes StabilizationDesired with yaw 0, the climb pitch of the
  settings, the maximal roll of the settings and the yaw stabilization mode Rate, and
  sets the Guidance alarm to Warning.
\<close>

theorem no_fix_fallback:
  assumes gate: "\<not> rateGated pf w st"
    and pass: "guard pf (failsafeFlightStatus w) (SystemSettings w)"
    and nofix: "Status (GPSPosition w) \<noteq> GPSPOSITION_STATUS_FIX3D"
  shows "Yaw (StabilizationDesired (fst (ccguidanceTask pf w st))) = 0
       \<and> Pitch (StabilizationDesired (fst (ccguidanceTask pf w st)))
           = SettingsPitch (CCGuidanceSettings w) CCGUIDANCESETTINGS_PITCH_CLIMB
       \<and> Roll (StabilizationDesired (fst (ccguidanceTask pf w st)))
           = SettingsRoll (CCGuidanceSettings w) CCGUIDANCESETTINGS_ROLL_MAX
       \<and> StabilizationMode (StabilizationDesired (fst (ccguidanceTask pf w st)))
             STABILIZATIONDESIRED_STABILIZATIONMODE_YAW
           = STABILIZATIONDESIRED_STABILIZATIONMODE_RATE
       \<and> StabilizationDesiredUpdates (fst (ccguidanceTask pf w st))
           = Suc (StabilizationDesiredUpdates w)
       \<and> AlarmsGet SYSTEMALARMS_ALARM_GUIDANCE (fst (ccguidanceTask pf w st))
           = SYSTEMALARMS_ALARM_WARNING"
  using pass nofix
  by (simp add: task_not_gated [OF gate] guidanceUpdate_def guidanceBranch_def Let_def
        publishSetpoint_def store_defs AlarmsGet_def)

theorem no_fix_fallback_witness:
  "Yaw (StabilizationDesired (fst (ccguidanceTask pf_ex world_nofix statics_ex))) = 0
   \<and> Pitch (StabilizationDesired (fst (ccguidanceTask pf_ex world_nofix statics_ex))) = 15
   \<and> Roll (StabilizationDesired (fst (ccguidanceTask pf_ex world_nofix statics_ex))) = 35
   \<and> StabilizationMode (StabilizationDesired (fst (ccguidanceTask pf_ex world_nofix statics_ex)))
         STABILIZATIONDESIRED_STABILIZATIONMODE_YAW
       = STABILIZATIONDESIRED_STABILIZATIONMODE_RATE
   \<and> StabilizationDesiredUpdates (fst (ccguidanceTask pf_ex world_nofix statics_ex)) = 1
   \<and> AlarmsGet SYSTEMALARMS_ALARM_GUIDANCE (fst (ccguidanceTask pf_ex world_nofix statics_ex))
       = SYSTEMALARMS_ALARM_WARNING"
proof -
  have gate: "\<not> rateGated pf_ex world_nofix statics_ex"
    by (simp add: gate_defs ex_defs world_nofix_def)
  have pass: "guard pf_ex (failsafeFlightStatus world_nofix) (SystemSettings world_nofix)"
    by (simp add: guard_def failsafe_defs ex_defs world_nofix_def)
  have nofix: "Status (GPSPosition world_nofix) \<noteq> GPSPOSITION_STATUS_FIX3D"
    by (simp add: ex_defs world_nofix_def)
  have vals: "SettingsPitch (CCGuidanceSettings world_nofix) CCGUIDANCESETTINGS_PITCH_CLIMB = 15
     \<and> SettingsRoll (CCGuidanceSettings world_nofix) CCGUIDANCESETTINGS_ROLL_MAX = 35
     \<and> StabilizationDesiredUpdates world_nofix = 0"
    by (simp add: ex_defs world_nofix_def)
  from no_fix_fallback [OF gate pass nofix] vals show ?thesis
    by simp
qed

text \<open>
  C8. In every call that passes the rate gate while the manual control alarm is not OK
  and \<^verbatim>\<open>failesaveEnableRTB\<close> is set, the flight mode is forced to ReturnToBase and
  written back with FlightStatusSet (the armed state is kept). The guard of this call is
  evaluated on the forced mode: \<^verbatim>\<open>positionHoldLast\<close> ends at 0 when the guard fails for
  ReturnToBase, and at the return-to-base target (2 with a home, 1 without) when it
  passes. A later call that finds the flight status as this call left it works with
  ReturnToBase as well.
\<close>

theorem failsafe_forces_rtb:
  assumes gate: "\<not> rateGated pf w st"
    and alarm: "AlarmsGet SYSTEMALARMS_ALARM_MANUALCONTROL w \<noteq> SYSTEMALARMS_ALARM_OK"
    and enabled: "failesaveEnableRTB (CCGuidanceSettings w)"
  shows "FlightStatus (fst (ccguidanceTask pf w st))
           = (FlightStatus w)\<lparr>FlightMode := FLIGHTSTATUS_FLIGHTMODE_RETURNTOBASE\<rparr>
       \<and> FlightStatusUpdates (fst (ccguidanceTask pf w st)) = Suc (FlightStatusUpdates w)
       \<and> positionHoldLast (snd (ccguidanceTask pf w st))
           = (if guard pf ((FlightStatus w)\<lparr>FlightMode := FLIGHTSTATUS_FLIGHTMODE_RETURNTOBASE\<rparr>)
                   (SystemSettings w)
              then if HomeLocationSet (CCGuidanceSettings w) then 2 else 1
              else 0)
       \<and> FlightMode (failsafeFlightStatus (fst (ccguidanceTask pf w st)))
           = FLIGHTSTATUS_FLIGHTMODE_RETURNTOBASE"
proof -
  have act: "failsafeActive w"
    using alarm enabled by (simp add: failsafeActive_def)
  show ?thesis
    using act
    by (simp add: task_not_gated [OF gate] guidanceUpdate_def Let_def
        guidanceBranch_target guidanceBranch_world failsafeFlightStatus_def
        store_defs selectTarget_def holdRequested_def homeRequested_def)
qed

theorem failsafe_forces_rtb_witness:
  "FlightMode (FlightStatus world_failsafe) = FLIGHTSTATUS_FLIGHTMODE_OTHER 0
   \<and> FlightStatus (fst (ccguidanceTask pf_ex world_failsafe statics_ex))
       = \<lparr> FlightMode = FLIGHTSTATUS_FLIGHTMODE_RETURNTOBASE,
           Armed = FLIGHTSTATUS_ARMED_OTHER 0 \<rparr>
   \<and> FlightStatusUpdates (fst (ccguidanceTask pf_ex world_failsafe statics_ex)) = 1
   \<and> positionHoldLast (snd (ccguidanceTask pf_ex world_failsafe statics_ex)) = 1
   \<and> FlightMode (failsafeFlightStatus (fst (ccguidanceTask pf_ex world_failsafe statics_ex)))
       = FLIGHTSTATUS_FLIGHTMODE_RETURNTOBASE"
proof -
  have gate: "\<not> rateGated pf_ex world_failsafe statics_ex"
    by (simp add: gate_defs ex_defs world_failsafe_def)
  have alarm: "AlarmsGet SYSTEMALARMS_ALARM_MANUALCONTROL world_failsafe \<noteq> SYSTEMALARMS_ALARM_OK"
    by (simp add: AlarmsGet_def ex_defs world_failsafe_def)
  have enabled: "failesaveEnableRTB (CCGuidanceSettings world_failsafe)"
    by (simp add: ex_defs world_failsafe_def)
  have vals: "FlightStatus world_failsafe
       = \<lparr> FlightMode = FLIGHTSTATUS_FLIGHTMODE_OTHER 0, Armed = FLIGHTSTATUS_ARMED_OTHER 0 \<rparr>
     \<and> FlightStatusUpdates world_failsafe = 0
     \<and> guard pf_ex \<lparr> FlightMode = FLIGHTSTATUS_FLIGHTMODE_RETURNTOBASE,
                      Armed = FLIGHTSTATUS_ARMED_OTHER 0 \<rparr> (SystemSettings world_failsafe)
     \<and> \<not> HomeLocationSet (CCGuidanceSettings world_failsafe)"
    by (simp add: guard_def ex_defs world_failsafe_def)
  from failsafe_forces_rtb [OF gate alarm enabled] vals show ?thesis
    by simp
qed

subsection \<open>The statics after one call\<close>

lemma initUpdateTime_frame [simp]:
  "calculateCourseStep (initUpdateTime w st) = calculateCourseStep st"
  "StateSaveCurrentPositionToRTB (initUpdateTime w st) = StateSaveCurrentPositionToRTB st"
  "positionHoldLast (initUpdateTime w st) = positionHoldLast st"
  "positionDesiredNorth (initUpdateTime w st) = positionDesiredNorth st"
  "positionDesiredEast (initUpdateTime w st) = positionDesiredEast st"
  "positionDesiredDown (initUpdateTime w st) = positionDesiredDown st"
  "courseTrue (initUpdateTime w st) = courseTrue st"
  "courseRelative (initUpdateTime w st) = courseRelative st"
  "diffHeadingYaw (initUpdateTime w st) = diffHeadingYaw st"
  "DistanceToBase (initUpdateTime w st) = DistanceToBase st"
  "positionActualNorth (initUpdateTime w st) = positionActualNorth st"
  "positionActualEast (initUpdateTime w st) = positionActualEast st"
  by (simp_all add: initUpdateTime_def)

lemma guidanceBranch_step:
  "calculateCourseStep (snd (guidanceBranch w fs cs st))
     = (if Status (GPSPosition w) = GPSPOSITION_STATUS_FIX3D \<and> calculateCourseStep st = 0
        then 1
        else if Status (GPSPosition w) = GPSPOSITION_STATUS_FIX3D \<and> calculateCourseStep st = 1
        then 2
        else 0)"
  by (simp add: guidanceBranch_def Let_def step_defs)

lemma guidanceBranch_latch:
  "StateSaveCurrentPositionToRTB (snd (guidanceBranch w fs cs st))
     = (if Status (GPSPosition w) = GPSPOSITION_STATUS_FIX3D \<and> calculateCourseStep st = 0
           \<and> Armed fs = FLIGHTSTATUS_ARMED_DISARMED \<and> StateSaveCurrentPositionToRTB st = 0
        then 1 else StateSaveCurrentPositionToRTB st)"
  by (simp add: guidanceBranch_def Let_def step_defs)

lemma guidanceBranch_time:
  "lastUpdateTime (snd (guidanceBranch w fs cs st)) = lastUpdateTime st"
  by (simp add: guidanceBranch_def Let_def step_defs)

lemma task_step:
  "calculateCourseStep (snd (ccguidanceTask pf w st))
     = (if rateGated pf w st then calculateCourseStep st
        else if guard pf (failsafeFlightStatus w) (SystemSettings w)
                \<and> Status (GPSPosition w) = GPSPOSITION_STATUS_FIX3D
                \<and> calculateCourseStep st = 0 then 1
        else if guard pf (failsafeFlightStatus w) (SystemSettings w)
                \<and> Status (GPSPosition w) = GPSPOSITION_STATUS_FIX3D
                \<and> calculateCourseStep st = 1 then 2
        else 0)"
  by (simp add: ccguidanceTask_def guidanceUpdate_def Let_def guidanceBranch_step store_defs)

lemma task_latch:
  "StateSaveCurrentPositionToRTB (snd (ccguidanceTask pf w st))
     = (if \<not> rateGated pf w st
           \<and> guard pf (failsafeFlightStatus w) (SystemSettings w)
           \<and> Status (GPSPosition w) = GPSPOSITION_STATUS_FIX3D
           \<and> calculateCourseStep st = 0
           \<and> Armed (failsafeFlightStatus w) = FLIGHTSTATUS_ARMED_DISARMED
           \<and> StateSaveCurrentPositionToRTB st = 0
        then 1 else StateSaveCurrentPositionToRTB st)"
  by (simp add: ccguidanceTask_def guidanceUpdate_def Let_def guidanceBranch_latch store_defs)

lemma task_time:
  "lastUpdateTime (snd (ccguidanceTask pf w st))
     = (if rateGated pf w st then lastUpdateTime (initUpdateTime w st) else TickCount w)"
  by (simp add: ccguidanceTask_def guidanceUpdate_def Let_def guidanceBranch_time store_defs)

lemma run_step_range:
  "calculateCourseStep st \<in> {0, 1, 2} \<Longrightarrow> calculateCourseStep (run pf ws st) \<in> {0, 1, 2}"
proof (induction ws arbitrary: st)
  case Nil
  then show ?case by simp
next
  case (Cons w ws)
  have "calculateCourseStep (snd (ccguidanceTask pf w st)) \<in> {0, 1, 2}"
    using Cons.prems by (simp add: task_step)
  then show ?case
    using Cons.IH by simp
qed

subsection \<open>The example flight, call by call\<close>

lemma world_at_frame [simp]:
  "TickCount (world_at t w) = t"
  "TickCountFirst (world_at t w) = t"
  "CCGuidanceSettings (world_at t w) = CCGuidanceSettings w"
  "FlightStatus (world_at t w) = FlightStatus w"
  "SystemSettings (world_at t w) = SystemSettings w"
  "GPSPosition (world_at t w) = GPSPosition w"
  "AttitudeActual (world_at t w) = AttitudeActual w"
  "ManualControlCommand (world_at t w) = ManualControlCommand w"
  "StabilizationDesired (world_at t w) = StabilizationDesired w"
  "SystemAlarms (world_at t w) = SystemAlarms w"
  "FlightStatusUpdates (world_at t w) = FlightStatusUpdates w"
  "StabilizationDesiredUpdates (world_at t w) = StabilizationDesiredUpdates w"
  by (simp_all add: world_at_def)

lemma world_at_failsafe [simp]:
  "failsafeFlightStatus (world_at t w) = failsafeFlightStatus w"
  by (simp add: failsafe_defs)

lemmas ex_world_defs = ex_defs world_nofix_def world_armed_def world_moved_def

lemma ex_guard:
  "guard pf_ex (failsafeFlightStatus world_ex) (SystemSettings world_ex)"
  "guard pf_ex (failsafeFlightStatus world_armed) (SystemSettings world_armed)"
  "guard pf_ex (failsafeFlightStatus world_moved) (SystemSettings world_moved)"
  "guard pf_ex (failsafeFlightStatus world_nofix) (SystemSettings world_nofix)"
  by (simp_all add: guard_def failsafe_defs ex_world_defs)

lemma ex_fix:
  "Status (GPSPosition world_ex) = GPSPOSITION_STATUS_FIX3D"
  "Status (GPSPosition world_armed) = GPSPOSITION_STATUS_FIX3D"
  "Status (GPSPosition world_moved) = GPSPOSITION_STATUS_FIX3D"
  "Status (GPSPosition world_nofix) \<noteq> GPSPOSITION_STATUS_FIX3D"
  by (simp_all add: ex_world_defs)

lemma ex_armed:
  "Armed (failsafeFlightStatus world_ex) = FLIGHTSTATUS_ARMED_DISARMED"
  "Armed (failsafeFlightStatus world_armed) = FLIGHTSTATUS_ARMED_OTHER 0"
  "Armed (failsafeFlightStatus world_moved) = FLIGHTSTATUS_ARMED_DISARMED"
  by (simp_all add: failsafe_defs ex_world_defs)

lemma ex_period:
  "UpdatePeriod (CCGuidanceSettings world_ex) = 100"
  "UpdatePeriod (CCGuidanceSettings world_armed) = 100"
  "UpdatePeriod (CCGuidanceSettings world_moved) = 100"
  "UpdatePeriod (CCGuidanceSettings world_nofix) = 100"
  by (simp_all add: ex_world_defs)

text \<open>
  The first call stores its tick and is held back by the rate gate; a call 200 ticks
  after the last update passes it.
\<close>

lemma ex_gate:
  "rateGated pf_ex (world_at t w) st \<longleftrightarrow>
     t - lastUpdateTime (initUpdateTime (world_at t w) st) < UpdatePeriod (CCGuidanceSettings w)"
  by (simp add: rateGated_def pf_ex_def)

lemma ex_first_call:
  "rateGated pf_ex (world_at 1000 world_ex) statics_init"
  "lastUpdateTime (snd (ccguidanceTask pf_ex (world_at 1000 world_ex) statics_init)) = 1000"
proof -
  show gated: "rateGated pf_ex (world_at 1000 world_ex) statics_init"
    by (simp add: ex_gate ex_period initUpdateTime_def statics_init_def)
  show "lastUpdateTime (snd (ccguidanceTask pf_ex (world_at 1000 world_ex) statics_init)) = 1000"
    using gated by (simp add: task_time initUpdateTime_def statics_init_def)
qed

lemma ex_later_call:
  assumes "UpdatePeriod (CCGuidanceSettings w) = 100"
  shows "lastUpdateTime st = 1000 \<Longrightarrow> \<not> rateGated pf_ex (world_at 1200 w) st"
    and "lastUpdateTime st = 1200 \<Longrightarrow> \<not> rateGated pf_ex (world_at 1400 w) st"
    and "lastUpdateTime st = 1400 \<Longrightarrow> \<not> rateGated pf_ex (world_at 1600 w) st"
    and "lastUpdateTime st = 1600 \<Longrightarrow> \<not> rateGated pf_ex (world_at 1800 w) st"
  using assms by (simp_all add: ex_gate initUpdateTime_def)

text \<open>
  C4. After every call the step counter is: unchanged when the rate gate holds the call
  back; 1 after a call at step 0 and 2 after a call at step 1, when the guard passes with
  a 3D fix (one transition in each such call); and 0 in every other case, that is after
  step 2 has completed, after the guard has failed and after a fix that is not 3D. So in
  every run from the initial statics the counter is 0, 1 or 2 at the start of every call.
\<close>

theorem course_step_cycle:
  "calculateCourseStep (snd (ccguidanceTask pf w st))
     = (if rateGated pf w st then calculateCourseStep st
        else if guard pf (failsafeFlightStatus w) (SystemSettings w)
                \<and> Status (GPSPosition w) = GPSPOSITION_STATUS_FIX3D
                \<and> calculateCourseStep st = 0 then 1
        else if guard pf (failsafeFlightStatus w) (SystemSettings w)
                \<and> Status (GPSPosition w) = GPSPOSITION_STATUS_FIX3D
                \<and> calculateCourseStep st = 1 then 2
        else 0)
   \<and> calculateCourseStep (run pf ws statics_init) \<in> {0, 1, 2}"
proof
  show "calculateCourseStep (snd (ccguidanceTask pf w st))
     = (if rateGated pf w st then calculateCourseStep st
        else if guard pf (failsafeFlightStatus w) (SystemSettings w)
                \<and> Status (GPSPosition w) = GPSPOSITION_STATUS_FIX3D
                \<and> calculateCourseStep st = 0 then 1
        else if guard pf (failsafeFlightStatus w) (SystemSettings w)
                \<and> Status (GPSPosition w) = GPSPOSITION_STATUS_FIX3D
                \<and> calculateCourseStep st = 1 then 2
        else 0)"
    by (rule task_step)
  have "calculateCourseStep statics_init \<in> {0, 1, 2}"
    by (simp add: statics_init_def)
  then show "calculateCourseStep (run pf ws statics_init) \<in> {0, 1, 2}"
    by (rule run_step_range)
qed

theorem course_step_cycle_witness:
  "calculateCourseStep (run pf_ex [world_at 1000 world_ex] statics_init) = 0
   \<and> calculateCourseStep (run pf_ex [world_at 1000 world_ex, world_at 1200 world_ex]
        statics_init) = 1
   \<and> calculateCourseStep (run pf_ex [world_at 1000 world_ex, world_at 1200 world_ex,
        world_at 1400 world_ex] statics_init) = 2
   \<and> calculateCourseStep (run pf_ex [world_at 1000 world_ex, world_at 1200 world_ex,
        world_at 1400 world_ex, world_at 1600 world_ex] statics_init) = 0
   \<and> calculateCourseStep (run pf_ex [world_at 1000 world_ex, world_at 1200 world_ex,
        world_at 1400 world_nofix] statics_init) = 0"
proof -
  let ?s1 = "snd (ccguidanceTask pf_ex (world_at 1000 world_ex) statics_init)"
  let ?s2 = "snd (ccguidanceTask pf_ex (world_at 1200 world_ex) ?s1)"
  let ?s3 = "snd (ccguidanceTask pf_ex (world_at 1400 world_ex) ?s2)"
  let ?s4 = "snd (ccguidanceTask pf_ex (world_at 1600 world_ex) ?s3)"
  let ?n3 = "snd (ccguidanceTask pf_ex (world_at 1400 world_nofix) ?s2)"
  note cycle = course_step_cycle [THEN conjunct1]
  have c1: "calculateCourseStep ?s1 = 0"
    using cycle [of pf_ex "world_at 1000 world_ex" statics_init] ex_first_call(1)
    by (simp add: statics_init_def)
  have g2: "\<not> rateGated pf_ex (world_at 1200 world_ex) ?s1"
    by (rule ex_later_call(1) [OF ex_period(1) ex_first_call(2)])
  have c2: "calculateCourseStep ?s2 = 1"
    using cycle [of pf_ex "world_at 1200 world_ex" ?s1] g2 c1 by (simp add: ex_guard ex_fix)
  have t2: "lastUpdateTime ?s2 = 1200"
    using g2 by (simp add: task_time)
  have g3: "\<not> rateGated pf_ex (world_at 1400 world_ex) ?s2"
    by (rule ex_later_call(2) [OF ex_period(1) t2])
  have c3: "calculateCourseStep ?s3 = 2"
    using cycle [of pf_ex "world_at 1400 world_ex" ?s2] g3 c2 by (simp add: ex_guard ex_fix)
  have t3: "lastUpdateTime ?s3 = 1400"
    using g3 by (simp add: task_time)
  have g4: "\<not> rateGated pf_ex (world_at 1600 world_ex) ?s3"
    by (rule ex_later_call(3) [OF ex_period(1) t3])
  have c4: "calculateCourseStep ?s4 = 0"
    using cycle [of pf_ex "world_at 1600 world_ex" ?s3] g4 c3 by (simp add: ex_guard ex_fix)
  have n3: "calculateCourseStep ?n3 = 0"
    using cycle [of pf_ex "world_at 1400 world_nofix" ?s2]
      ex_later_call(2) [OF ex_period(4) t2]
    by (simp add: ex_fix)
  from c1 c2 c3 c4 n3 show ?thesis
    by simp
qed

subsection \<open>The latch of the home location\<close>

lemma latchesHome_iff:
  "latchesHome pf w st \<longleftrightarrow>
     StateSaveCurrentPositionToRTB st = 0
     \<and> \<not> rateGated pf w st
     \<and> guard pf (failsafeFlightStatus w) (SystemSettings w)
     \<and> Status (GPSPosition w) = GPSPOSITION_STATUS_FIX3D
     \<and> calculateCourseStep st = 0
     \<and> Armed (failsafeFlightStatus w) = FLIGHTSTATUS_ARMED_DISARMED"
  by (auto simp: latchesHome_def task_latch)

lemma latch_kept:
  "StateSaveCurrentPositionToRTB st \<noteq> 0 \<Longrightarrow>
     StateSaveCurrentPositionToRTB (snd (ccguidanceTask pf w st))
       = StateSaveCurrentPositionToRTB st"
  by (simp add: task_latch)

lemma latched_run:
  "StateSaveCurrentPositionToRTB st \<noteq> 0 \<Longrightarrow>
     latchCount pf ws st = 0
     \<and> StateSaveCurrentPositionToRTB (run pf ws st) = StateSaveCurrentPositionToRTB st"
proof (induction ws arbitrary: st)
  case Nil
  show ?case by simp
next
  case (Cons w ws)
  let ?st = "snd (ccguidanceTask pf w st)"
  have kept: "StateSaveCurrentPositionToRTB ?st = StateSaveCurrentPositionToRTB st"
    using Cons.prems by (rule latch_kept)
  have no: "\<not> latchesHome pf w st"
    using Cons.prems by (simp add: latchesHome_def)
  from kept Cons.prems have "StateSaveCurrentPositionToRTB ?st \<noteq> 0"
    by simp
  from Cons.IH [OF this] kept no show ?case
    by simp
qed

lemma latchCount_le_1: "latchCount pf ws st \<le> 1"
proof (induction ws arbitrary: st)
  case Nil
  show ?case by simp
next
  case (Cons w ws)
  let ?st = "snd (ccguidanceTask pf w st)"
  show ?case
  proof (cases "latchesHome pf w st")
    case True
    then have "StateSaveCurrentPositionToRTB ?st \<noteq> 0"
      by (simp add: latchesHome_def)
    then have "latchCount pf ws ?st = 0"
      using latched_run by blast
    with True show ?thesis by simp
  next
    case False
    with Cons.IH [of ?st] show ?thesis by simp
  qed
qed

lemma step0_settings:
  "fst (calculateCourseStep0 fs gps cs st)
     = (if Armed fs = FLIGHTSTATUS_ARMED_DISARMED \<and> StateSaveCurrentPositionToRTB st = 0
        then saveHomeLocation gps cs else cs)"
  by (simp add: calculateCourseStep0_def Let_def)

text \<open>The statics of the example flight before each of its calls.\<close>

lemma flight_ex_statics:
  "lastUpdateTime (run pf_ex (take 2 flight_ex) statics_init) = 1200"
  "calculateCourseStep (run pf_ex (take 2 flight_ex) statics_init) = 1"
  "StateSaveCurrentPositionToRTB (run pf_ex (take 2 flight_ex) statics_init) = 1"
  "lastUpdateTime (run pf_ex flight_ex statics_init) = 1600"
  "calculateCourseStep (run pf_ex flight_ex statics_init) = 0"
  "StateSaveCurrentPositionToRTB (run pf_ex flight_ex statics_init) = 1"
proof -
  let ?s1 = "snd (ccguidanceTask pf_ex (world_at 1000 world_ex) statics_init)"
  let ?s2 = "snd (ccguidanceTask pf_ex (world_at 1200 world_ex) ?s1)"
  let ?s3 = "snd (ccguidanceTask pf_ex (world_at 1400 world_armed) ?s2)"
  let ?s4 = "snd (ccguidanceTask pf_ex (world_at 1600 world_armed) ?s3)"
  have r2: "run pf_ex (take 2 flight_ex) statics_init = ?s2"
    by (simp add: flight_ex_def)
  have r4: "run pf_ex flight_ex statics_init = ?s4"
    by (simp add: flight_ex_def)
  have c1: "calculateCourseStep ?s1 = 0" "StateSaveCurrentPositionToRTB ?s1 = 0"
    using ex_first_call(1) by (simp_all add: task_step task_latch statics_init_def)
  have g2: "\<not> rateGated pf_ex (world_at 1200 world_ex) ?s1"
    by (rule ex_later_call(1) [OF ex_period(1) ex_first_call(2)])
  have c2: "calculateCourseStep ?s2 = 1" "StateSaveCurrentPositionToRTB ?s2 = 1"
    "lastUpdateTime ?s2 = 1200"
    using g2 c1 by (simp_all add: task_step task_latch task_time ex_guard ex_fix ex_armed)
  have g3: "\<not> rateGated pf_ex (world_at 1400 world_armed) ?s2"
    by (rule ex_later_call(2) [OF ex_period(2) c2(3)])
  have c3: "calculateCourseStep ?s3 = 2" "StateSaveCurrentPositionToRTB ?s3 = 1"
    "lastUpdateTime ?s3 = 1400"
    using g3 c2 by (simp_all add: task_step task_latch task_time ex_guard ex_fix ex_armed)
  have g4: "\<not> rateGated pf_ex (world_at 1600 world_armed) ?s3"
    by (rule ex_later_call(3) [OF ex_period(2) c3(3)])
  have c4: "calculateCourseStep ?s4 = 0" "StateSaveCurrentPositionToRTB ?s4 = 1"
    "lastUpdateTime ?s4 = 1600"
    using g4 c3 by (simp_all add: task_step task_latch task_time ex_guard ex_fix ex_armed)
  show "lastUpdateTime (run pf_ex (take 2 flight_ex) statics_init) = 1200"
    "calculateCourseStep (run pf_ex (take 2 flight_ex) statics_init) = 1"
    "StateSaveCurrentPositionToRTB (run pf_ex (take 2 flight_ex) statics_init) = 1"
    "lastUpdateTime (run pf_ex flight_ex statics_init) = 1600"
    "calculateCourseStep (run pf_ex flight_ex statics_init) = 0"
    "StateSaveCurrentPositionToRTB (run pf_ex flight_ex statics_init) = 1"
    unfolding r2 r4 using c2 c4 by simp_all
qed

lemma flight_ex_first:
  "run pf_ex (take 1 flight_ex) statics_init
     = snd (ccguidanceTask pf_ex (world_at 1000 world_ex) statics_init)"
  "calculateCourseStep (run pf_ex (take 1 flight_ex) statics_init) = 0"
  "StateSaveCurrentPositionToRTB (run pf_ex (take 1 flight_ex) statics_init) = 0"
  "\<not> rateGated pf_ex (world_at 1200 world_ex) (run pf_ex (take 1 flight_ex) statics_init)"
proof -
  show r1: "run pf_ex (take 1 flight_ex) statics_init
     = snd (ccguidanceTask pf_ex (world_at 1000 world_ex) statics_init)"
    by (simp add: flight_ex_def)
  show "calculateCourseStep (run pf_ex (take 1 flight_ex) statics_init) = 0"
    "StateSaveCurrentPositionToRTB (run pf_ex (take 1 flight_ex) statics_init) = 0"
    unfolding r1 using ex_first_call(1)
    by (simp_all add: task_step task_latch statics_init_def)
  show "\<not> rateGated pf_ex (world_at 1200 world_ex) (run pf_ex (take 1 flight_ex) statics_init)"
    unfolding r1 by (rule ex_later_call(1) [OF ex_period(1) ex_first_call(2)])
qed

lemma task_latch_disarmed:
  "StateSaveCurrentPositionToRTB (snd (ccguidanceTask pf w st))
     = (if StateSaveCurrentPositionToRTB st = 0 \<and> disarmedStep0 pf w st then 1
        else StateSaveCurrentPositionToRTB st)"
  by (simp add: task_latch disarmedStep0_def)

lemma latchesHome_disarmed:
  "latchesHome pf w st \<longleftrightarrow> StateSaveCurrentPositionToRTB st = 0 \<and> disarmedStep0 pf w st"
  by (simp add: latchesHome_iff disarmedStep0_def)

lemma unlatched_run:
  "StateSaveCurrentPositionToRTB st = 0 \<Longrightarrow>
     (StateSaveCurrentPositionToRTB (run pf ws st) = 0 \<longleftrightarrow> disarmedCalls pf ws st = 0)"
proof (induction ws arbitrary: st)
  case Nil
  then show ?case by simp
next
  case (Cons w ws)
  let ?st = "snd (ccguidanceTask pf w st)"
  show ?case
  proof (cases "disarmedStep0 pf w st")
    case True
    with Cons.prems have "StateSaveCurrentPositionToRTB ?st = 1"
      by (simp add: task_latch_disarmed)
    then have "StateSaveCurrentPositionToRTB (run pf ws ?st) = 1"
      using latched_run [of ?st pf ws] by simp
    with True show ?thesis by simp
  next
    case False
    with Cons.prems have "StateSaveCurrentPositionToRTB ?st = 0"
      by (simp add: task_latch_disarmed)
    from Cons.IH [OF this] False show ?thesis by simp
  qed
qed

lemma first_disarmed_latches:
  "latchesHome pf w (run pf ws statics_init) \<longleftrightarrow>
     disarmedStep0 pf w (run pf ws statics_init) \<and> disarmedCalls pf ws statics_init = 0"
proof -
  have "StateSaveCurrentPositionToRTB statics_init = 0"
    by (simp add: statics_init_def)
  from unlatched_run [OF this, of pf ws] show ?thesis
    by (auto simp: latchesHome_disarmed)
qed

text \<open>
  C2, as the code has it. After every call the flag is 1 when it was 0 and the call is
  a disarmed call at step 0 (rate gate and guard passed, 3D fix, counter 0, vehicle
  disarmed), and what it was before in every other case: exactly those calls save the
  home location, and step 0 then holds latitude, longitude and altitude of the fix and
  HomeLocationSet in its settings. In a run from the initial statics a call saves the home
  location exactly when it is such a call and no call before it was: the first one does.
  The flag is never reset: in every run at most one call saves the home location, and
  from statics with the flag set no call does, whatever the armed states of the calls
  are.
\<close>

theorem home_latched_once:
  "StateSaveCurrentPositionToRTB (snd (ccguidanceTask pf w st))
     = (if StateSaveCurrentPositionToRTB st = 0 \<and> disarmedStep0 pf w st then 1
        else StateSaveCurrentPositionToRTB st)
   \<and> (latchesHome pf w st \<longleftrightarrow>
      StateSaveCurrentPositionToRTB st = 0
      \<and> \<not> rateGated pf w st
      \<and> guard pf (failsafeFlightStatus w) (SystemSettings w)
      \<and> Status (GPSPosition w) = GPSPOSITION_STATUS_FIX3D
      \<and> calculateCourseStep st = 0
      \<and> Armed (failsafeFlightStatus w) = FLIGHTSTATUS_ARMED_DISARMED)
   \<and> fst (calculateCourseStep0 fs gps cs st)
       = (if Armed fs = FLIGHTSTATUS_ARMED_DISARMED \<and> StateSaveCurrentPositionToRTB st = 0
          then saveHomeLocation gps cs else cs)
   \<and> (latchesHome pf v (run pf us statics_init) \<longleftrightarrow>
      disarmedStep0 pf v (run pf us statics_init) \<and> disarmedCalls pf us statics_init = 0)
   \<and> latchCount pf ws st' \<le> 1
   \<and> (StateSaveCurrentPositionToRTB st'' \<noteq> 0 \<longrightarrow>
        latchCount pf ws st'' = 0
        \<and> StateSaveCurrentPositionToRTB (run pf ws st'') = StateSaveCurrentPositionToRTB st'')"
  using task_latch_disarmed [of pf w st] latchesHome_iff [of pf w st]
    step0_settings [of fs gps cs st] first_disarmed_latches [of pf v us]
    latchCount_le_1 [of pf ws st'] latched_run [of st'' pf ws]
  by blast

theorem home_latched_once_witness:
  "disarmedCalls pf_ex (take 1 flight_ex) statics_init = 0
   \<and> latchesHome pf_ex (world_at 1200 world_ex) (run pf_ex (take 1 flight_ex) statics_init)
   \<and> StateSaveCurrentPositionToRTB
        (snd (ccguidanceTask pf_ex (world_at 1200 world_ex)
               (run pf_ex (take 1 flight_ex) statics_init))) = 1
   \<and> fst (calculateCourseStep0 (FlightStatus world_ex) (GPSPosition world_ex) settings_ex
            (run pf_ex (take 1 flight_ex) statics_init))
       = settings_ex\<lparr>HomeLocationLatitude := 480000000, HomeLocationLongitude := 110000000,
                     HomeLocationAltitude := 500, HomeLocationSet := True\<rparr>
   \<and> latchCount pf_ex (flight_ex @ [world_at 1800 world_moved]) statics_init \<le> 1
   \<and> StateSaveCurrentPositionToRTB (run pf_ex flight_ex statics_init) = 1
   \<and> latchCount pf_ex [world_at 1800 world_moved] (run pf_ex flight_ex statics_init) = 0
   \<and> StateSaveCurrentPositionToRTB
        (run pf_ex [world_at 1800 world_moved] (run pf_ex flight_ex statics_init)) = 1"
proof -
  let ?s1 = "run pf_ex (take 1 flight_ex) statics_init"
  let ?s4 = "run pf_ex flight_ex statics_init"
  note inst = home_latched_once [of pf_ex "world_at 1200 world_ex" ?s1
      "FlightStatus world_ex" "GPSPosition world_ex" settings_ex
      "world_at 1200 world_ex" "take 1 flight_ex"
      "flight_ex @ [world_at 1800 world_moved]" statics_init]
  note inst' = home_latched_once [of pf_ex "world_at 1200 world_ex" ?s1
      "FlightStatus world_ex" "GPSPosition world_ex" settings_ex
      "world_at 1200 world_ex" "take 1 flight_ex"
      "[world_at 1800 world_moved]" statics_init ?s4]
  have step0: "disarmedStep0 pf_ex (world_at 1200 world_ex) ?s1"
    using flight_ex_first(2,4) by (simp add: disarmedStep0_def ex_guard ex_fix ex_armed)
  have none: "disarmedCalls pf_ex (take 1 flight_ex) statics_init = 0"
    using ex_first_call(1) by (simp add: flight_ex_def disarmedStep0_def)
  have a: "latchesHome pf_ex (world_at 1200 world_ex) ?s1"
    using inst step0 none by blast
  have f: "StateSaveCurrentPositionToRTB
        (snd (ccguidanceTask pf_ex (world_at 1200 world_ex) ?s1)) = 1"
    using inst step0 flight_ex_first(3) by simp
  have b: "fst (calculateCourseStep0 (FlightStatus world_ex) (GPSPosition world_ex) settings_ex ?s1)
       = settings_ex\<lparr>HomeLocationLatitude := 480000000, HomeLocationLongitude := 110000000,
                     HomeLocationAltitude := 500, HomeLocationSet := True\<rparr>"
    using inst flight_ex_first(3) by (simp add: saveHomeLocation_def world_ex_def)
  have c: "latchCount pf_ex (flight_ex @ [world_at 1800 world_moved]) statics_init \<le> 1"
    using inst by blast
  have d: "latchCount pf_ex [world_at 1800 world_moved] ?s4 = 0
     \<and> StateSaveCurrentPositionToRTB (run pf_ex [world_at 1800 world_moved] ?s4) = 1"
    using inst' flight_ex_statics(6) by simp
  from none a f b c d flight_ex_statics(6) show ?thesis
    by blast
qed

text \<open>
  In the example flight the second call saves the home location. Two armed calls follow,
  and then a disarmed call at another fix that passes the rate gate and the guard with a
  3D fix at step 0: it does not save the home location again.
\<close>

theorem relatch_counterexample:
  "latchesHome pf_ex (world_at 1200 world_ex) (run pf_ex (take 1 flight_ex) statics_init)
   \<and> Armed (failsafeFlightStatus world_armed) \<noteq> FLIGHTSTATUS_ARMED_DISARMED
   \<and> Armed (failsafeFlightStatus world_moved) = FLIGHTSTATUS_ARMED_DISARMED
   \<and> \<not> rateGated pf_ex (world_at 1800 world_moved) (run pf_ex flight_ex statics_init)
   \<and> guard pf_ex (failsafeFlightStatus world_moved) (SystemSettings world_moved)
   \<and> Status (GPSPosition world_moved) = GPSPOSITION_STATUS_FIX3D
   \<and> calculateCourseStep (run pf_ex flight_ex statics_init) = 0
   \<and> \<not> latchesHome pf_ex (world_at 1800 world_moved) (run pf_ex flight_ex statics_init)"
proof -
  have a: "latchesHome pf_ex (world_at 1200 world_ex) (run pf_ex (take 1 flight_ex) statics_init)"
    using flight_ex_first(2,3,4) by (simp add: latchesHome_iff ex_guard ex_fix ex_armed)
  have g: "\<not> rateGated pf_ex (world_at 1800 world_moved) (run pf_ex flight_ex statics_init)"
    by (rule ex_later_call(4) [OF ex_period(3) flight_ex_statics(4)])
  have n: "\<not> latchesHome pf_ex (world_at 1800 world_moved) (run pf_ex flight_ex statics_init)"
    using flight_ex_statics(6) by (simp add: latchesHome_def)
  from a g n show ?thesis
    by (simp add: ex_guard ex_fix ex_armed flight_ex_statics(5))
qed

subsection \<open>The settings object\<close>

lemma task_settings:
  "CCGuidanceSettings (fst (ccguidanceTask pf w st)) = CCGuidanceSettings w"
  by (simp add: ccguidanceTask_def Let_def guidanceUpdate_settings)

text \<open>
  C1 at a call that saves the home location (the second call of the example flight:
  rate gate and guard passed, 3D fix, step 0, disarmed, flag 0). The call sets the
  flag, and the local settings of step 0 hold the fix with HomeLocationSet true, but the
  function returns without a call of CCGuidanceSettingsSet: the settings object after
  the call is the one before it, with HomeLocationSet false and the home location 0.
\<close>

theorem home_location_not_written_back:
  "StateSaveCurrentPositionToRTB (run pf_ex (take 1 flight_ex) statics_init) = 0
   \<and> StateSaveCurrentPositionToRTB
        (snd (ccguidanceTask pf_ex (world_at 1200 world_ex)
               (run pf_ex (take 1 flight_ex) statics_init))) = 1
   \<and> HomeLocationSet (fst (calculateCourseStep0 (FlightStatus world_ex) (GPSPosition world_ex)
        (CCGuidanceSettings world_ex) (run pf_ex (take 1 flight_ex) statics_init)))
   \<and> CCGuidanceSettings (fst (ccguidanceTask pf_ex (world_at 1200 world_ex)
        (run pf_ex (take 1 flight_ex) statics_init))) = settings_ex
   \<and> \<not> HomeLocationSet settings_ex
   \<and> HomeLocationLatitude settings_ex = 0"
proof -
  let ?s1 = "run pf_ex (take 1 flight_ex) statics_init"
  have flag: "StateSaveCurrentPositionToRTB
        (snd (ccguidanceTask pf_ex (world_at 1200 world_ex) ?s1)) = 1"
    using flight_ex_first(2,3,4) by (simp add: task_latch ex_guard ex_fix ex_armed)
  have local: "HomeLocationSet (fst (calculateCourseStep0 (FlightStatus world_ex)
        (GPSPosition world_ex) (CCGuidanceSettings world_ex) ?s1))"
    using flight_ex_first(3) by (simp add: step0_settings saveHomeLocation_def world_ex_def)
  have store: "CCGuidanceSettings (fst (ccguidanceTask pf_ex (world_at 1200 world_ex) ?s1))
      = settings_ex"
    by (simp add: task_settings world_ex_def)
  from flag local store flight_ex_first(3) show ?thesis
    by (simp add: settings_ex_def)
qed

subsection \<open>The choice of the target\<close>

lemma selectTarget_hold:
  "positionHoldLast st \<noteq> 1 \<Longrightarrow> holdRequested fs cs \<Longrightarrow>
     desiredTarget (selectTarget fs cs gps st)
       = (real_of_int (Latitude gps) * (1 / 10 ^ 7), real_of_int (Longitude gps) * (1 / 10 ^ 7),
          Altitude gps + GeoidSeparation gps + 1)
     \<and> positionHoldLast (selectTarget fs cs gps st) = 1"
  by (simp add: selectTarget_def desiredTarget_def)

lemma selectTarget_held:
  "positionHoldLast st = 1 \<Longrightarrow> holdRequested fs cs \<Longrightarrow> selectTarget fs cs gps st = st"
  by (auto simp: selectTarget_def holdRequested_def homeRequested_def)

lemma selectTarget_home:
  "homeRequested fs cs \<Longrightarrow> positionHoldLast (selectTarget fs cs gps st) = 2"
  by (auto simp: selectTarget_def holdRequested_def homeRequested_def)

lemma task_target:
  "positionHoldLast (snd (ccguidanceTask pf w st))
     = (if rateGated pf w st then positionHoldLast st
        else if guard pf (failsafeFlightStatus w) (SystemSettings w)
        then positionHoldLast (selectTarget (failsafeFlightStatus w) (CCGuidanceSettings w)
               (GPSPosition w) st)
        else 0)"
  "desiredTarget (snd (ccguidanceTask pf w st))
     = (if \<not> rateGated pf w st \<and> guard pf (failsafeFlightStatus w) (SystemSettings w)
        then desiredTarget (selectTarget (failsafeFlightStatus w) (CCGuidanceSettings w)
               (GPSPosition w) st)
        else desiredTarget st)"
  by (simp_all add: ccguidanceTask_def guidanceUpdate_def Let_def guidanceBranch_target
      desiredTarget_def store_defs selectTarget_def)

lemma held_run:
  "positionHoldLast st = 1 \<Longrightarrow>
   \<forall>w \<in> set ws. guard pf (failsafeFlightStatus w) (SystemSettings w)
      \<and> holdRequested (failsafeFlightStatus w) (CCGuidanceSettings w) \<Longrightarrow>
   desiredTarget (run pf ws st) = desiredTarget st \<and> positionHoldLast (run pf ws st) = 1"
proof (induction ws arbitrary: st)
  case Nil
  then show ?case by simp
next
  case (Cons w ws)
  let ?st = "snd (ccguidanceTask pf w st)"
  have sel: "selectTarget (failsafeFlightStatus w) (CCGuidanceSettings w) (GPSPosition w) st = st"
    using Cons.prems by (simp add: selectTarget_held)
  have one: "desiredTarget ?st = desiredTarget st \<and> positionHoldLast ?st = 1"
    using Cons.prems by (simp add: task_target sel)
  have "desiredTarget (run pf ws ?st) = desiredTarget ?st \<and> positionHoldLast (run pf ws ?st) = 1"
    using one Cons.prems by (intro Cons.IH) simp_all
  with one show ?case by simp
qed

lemma leave_return:
  assumes g1: "\<not> rateGated pf w1 st"
    and leave: "\<not> guard pf (failsafeFlightStatus w1) (SystemSettings w1)
       \<or> homeRequested (failsafeFlightStatus w1) (CCGuidanceSettings w1)"
    and g2: "\<not> rateGated pf w2 (snd (ccguidanceTask pf w1 st))"
    and pass: "guard pf (failsafeFlightStatus w2) (SystemSettings w2)"
    and hold: "holdRequested (failsafeFlightStatus w2) (CCGuidanceSettings w2)"
  shows "desiredTarget (run pf [w1, w2] st)
       = (real_of_int (Latitude (GPSPosition w2)) * (1 / 10 ^ 7),
          real_of_int (Longitude (GPSPosition w2)) * (1 / 10 ^ 7),
          Altitude (GPSPosition w2) + GeoidSeparation (GPSPosition w2) + 1)
     \<and> positionHoldLast (run pf [w1, w2] st) = 1"
proof -
  let ?st = "snd (ccguidanceTask pf w1 st)"
  have "positionHoldLast ?st = 0 \<or> positionHoldLast ?st = 2"
    using g1 leave by (auto simp: task_target selectTarget_home)
  then have ne: "positionHoldLast ?st \<noteq> 1"
    by auto
  show ?thesis
    using g2 pass selectTarget_hold [OF ne hold] by (simp add: task_target)
qed

lemma request_free_call:
  assumes "rateGated pf w st
     \<or> (guard pf (failsafeFlightStatus w) (SystemSettings w)
        \<and> \<not> holdRequested (failsafeFlightStatus w) (CCGuidanceSettings w)
        \<and> \<not> homeRequested (failsafeFlightStatus w) (CCGuidanceSettings w))"
  shows "desiredTarget (snd (ccguidanceTask pf w st)) = desiredTarget st
     \<and> positionHoldLast (snd (ccguidanceTask pf w st)) = positionHoldLast st"
  using assms by (auto simp: task_target selectTarget_def)

lemma held_call:
  "positionHoldLast st = 1 \<Longrightarrow>
   holdRequested (failsafeFlightStatus w) (CCGuidanceSettings w) \<Longrightarrow>
   desiredTarget (snd (ccguidanceTask pf w st)) = desiredTarget st"
  by (simp add: task_target selectTarget_held)

lemma ex_manual:
  "UpdatePeriod (CCGuidanceSettings world_manual) = 100"
  "\<not> guard pf_ex (failsafeFlightStatus world_manual) (SystemSettings world_manual)"
  by (simp_all add: guard_def failsafe_defs ex_world_defs)

lemma ex_hold:
  "holdRequested (failsafeFlightStatus world_ex) (CCGuidanceSettings world_ex)"
  "holdRequested (failsafeFlightStatus world_moved) (CCGuidanceSettings world_moved)"
  by (simp_all add: holdRequested_def failsafe_defs ex_world_defs)

lemma ex_gps:
  "Latitude (GPSPosition world_ex) = 480000000"
  "Longitude (GPSPosition world_ex) = 110000000"
  "Altitude (GPSPosition world_ex) = 500"
  "GeoidSeparation (GPSPosition world_ex) = 40"
  "Latitude (GPSPosition world_moved) = 481000000"
  "Longitude (GPSPosition world_moved) = 112000000"
  "Altitude (GPSPosition world_moved) = 300"
  "GeoidSeparation (GPSPosition world_moved) = 40"
  by (simp_all add: ex_world_defs)

lemma third_gate:
  "rateGated pf_third (world_at t w) st \<longleftrightarrow>
     t - lastUpdateTime (initUpdateTime (world_at t w) st) < UpdatePeriod (CCGuidanceSettings w)"
  by (simp add: rateGated_def pf_third_def)

lemma flight_ex_target:
  "desiredTarget (run pf_ex (take 2 flight_ex) statics_init) = (48, 11, 541)"
  "positionHoldLast (run pf_ex (take 2 flight_ex) statics_init) = 1"
  "desiredTarget (run pf_third (take 2 flight_ex) statics_init) = (48, 11, 541)"
  "positionHoldLast (run pf_third (take 2 flight_ex) statics_init) = 1"
  "lastUpdateTime (run pf_third (take 2 flight_ex) statics_init) = 1200"
  by (simp_all add: flight_ex_def desiredTarget_def world_at_def ex_world_defs pf_third_def
      task_defs)

text \<open>
  C5, as the code has it. A call that passes the rate gate and the guard with
  PositionHold (or ReturnToBase and no home) requested while \<^verbatim>\<open>positionHoldLast\<close> is not 1
  stores the current fix as the desired position, with the altitude of the fix plus the
  geoid separation plus 1, and sets \<^verbatim>\<open>positionHoldLast\<close> to 1. From then on, whatever
  calls follow in which the guard passes and the same request stands, the desired
  position stays as it is. After a call that passes the rate gate and in which the guard
  fails or ReturnToBase with a home is requested, the next call that passes the rate
  gate and the guard with the request stores the fix of that call. A call that the rate
  gate holds back, and a call in the guidance branch with neither request, leaves the
  desired position and \<^verbatim>\<open>positionHoldLast\<close> as they are: a leave seen only by such calls
  is followed by no new capture.
\<close>

theorem hold_target_captured_once:
  "(\<not> rateGated pf w st
      \<and> guard pf (failsafeFlightStatus w) (SystemSettings w)
      \<and> holdRequested (failsafeFlightStatus w) (CCGuidanceSettings w)
      \<and> positionHoldLast st \<noteq> 1 \<longrightarrow>
      desiredTarget (snd (ccguidanceTask pf w st))
        = (real_of_int (Latitude (GPSPosition w)) * (1 / 10 ^ 7),
           real_of_int (Longitude (GPSPosition w)) * (1 / 10 ^ 7),
           Altitude (GPSPosition w) + GeoidSeparation (GPSPosition w) + 1)
      \<and> positionHoldLast (snd (ccguidanceTask pf w st)) = 1)
   \<and> (positionHoldLast st' = 1
      \<and> (\<forall>v \<in> set ws. guard pf (failsafeFlightStatus v) (SystemSettings v)
            \<and> holdRequested (failsafeFlightStatus v) (CCGuidanceSettings v)) \<longrightarrow>
      desiredTarget (run pf ws st') = desiredTarget st'
      \<and> positionHoldLast (run pf ws st') = 1)
   \<and> (\<not> rateGated pf w1 st''
      \<and> (\<not> guard pf (failsafeFlightStatus w1) (SystemSettings w1)
         \<or> homeRequested (failsafeFlightStatus w1) (CCGuidanceSettings w1))
      \<and> \<not> rateGated pf w2 (snd (ccguidanceTask pf w1 st''))
      \<and> guard pf (failsafeFlightStatus w2) (SystemSettings w2)
      \<and> holdRequested (failsafeFlightStatus w2) (CCGuidanceSettings w2) \<longrightarrow>
      desiredTarget (run pf [w1, w2] st'')
        = (real_of_int (Latitude (GPSPosition w2)) * (1 / 10 ^ 7),
           real_of_int (Longitude (GPSPosition w2)) * (1 / 10 ^ 7),
           Altitude (GPSPosition w2) + GeoidSeparation (GPSPosition w2) + 1)
      \<and> positionHoldLast (run pf [w1, w2] st'') = 1)
   \<and> (rateGated pf w3 st3
       \<or> (guard pf (failsafeFlightStatus w3) (SystemSettings w3)
          \<and> \<not> holdRequested (failsafeFlightStatus w3) (CCGuidanceSettings w3)
          \<and> \<not> homeRequested (failsafeFlightStatus w3) (CCGuidanceSettings w3)) \<longrightarrow>
      desiredTarget (snd (ccguidanceTask pf w3 st3)) = desiredTarget st3
      \<and> positionHoldLast (snd (ccguidanceTask pf w3 st3)) = positionHoldLast st3)"
proof (intro conjI impI)
  assume a: "\<not> rateGated pf w st
      \<and> guard pf (failsafeFlightStatus w) (SystemSettings w)
      \<and> holdRequested (failsafeFlightStatus w) (CCGuidanceSettings w)
      \<and> positionHoldLast st \<noteq> 1"
  then have sel: "desiredTarget (selectTarget (failsafeFlightStatus w) (CCGuidanceSettings w)
        (GPSPosition w) st)
      = (real_of_int (Latitude (GPSPosition w)) * (1 / 10 ^ 7),
         real_of_int (Longitude (GPSPosition w)) * (1 / 10 ^ 7),
         Altitude (GPSPosition w) + GeoidSeparation (GPSPosition w) + 1)
     \<and> positionHoldLast (selectTarget (failsafeFlightStatus w) (CCGuidanceSettings w)
        (GPSPosition w) st) = 1"
    by (intro selectTarget_hold) simp_all
  from a sel show "desiredTarget (snd (ccguidanceTask pf w st))
        = (real_of_int (Latitude (GPSPosition w)) * (1 / 10 ^ 7),
           real_of_int (Longitude (GPSPosition w)) * (1 / 10 ^ 7),
           Altitude (GPSPosition w) + GeoidSeparation (GPSPosition w) + 1)"
    by (simp add: task_target)
  from a sel show "positionHoldLast (snd (ccguidanceTask pf w st)) = 1"
    by (simp add: task_target)
next
  assume b: "positionHoldLast st' = 1
      \<and> (\<forall>v \<in> set ws. guard pf (failsafeFlightStatus v) (SystemSettings v)
            \<and> holdRequested (failsafeFlightStatus v) (CCGuidanceSettings v))"
  then have "desiredTarget (run pf ws st') = desiredTarget st'
      \<and> positionHoldLast (run pf ws st') = 1"
    by (intro held_run) simp_all
  then show "desiredTarget (run pf ws st') = desiredTarget st'"
    and "positionHoldLast (run pf ws st') = 1"
    by simp_all
next
  assume c: "\<not> rateGated pf w1 st''
      \<and> (\<not> guard pf (failsafeFlightStatus w1) (SystemSettings w1)
         \<or> homeRequested (failsafeFlightStatus w1) (CCGuidanceSettings w1))
      \<and> \<not> rateGated pf w2 (snd (ccguidanceTask pf w1 st''))
      \<and> guard pf (failsafeFlightStatus w2) (SystemSettings w2)
      \<and> holdRequested (failsafeFlightStatus w2) (CCGuidanceSettings w2)"
  then have "desiredTarget (run pf [w1, w2] st'')
        = (real_of_int (Latitude (GPSPosition w2)) * (1 / 10 ^ 7),
           real_of_int (Longitude (GPSPosition w2)) * (1 / 10 ^ 7),
           Altitude (GPSPosition w2) + GeoidSeparation (GPSPosition w2) + 1)
      \<and> positionHoldLast (run pf [w1, w2] st'') = 1"
    by (intro leave_return) simp_all
  then show "desiredTarget (run pf [w1, w2] st'')
        = (real_of_int (Latitude (GPSPosition w2)) * (1 / 10 ^ 7),
           real_of_int (Longitude (GPSPosition w2)) * (1 / 10 ^ 7),
           Altitude (GPSPosition w2) + GeoidSeparation (GPSPosition w2) + 1)"
    and "positionHoldLast (run pf [w1, w2] st'') = 1"
    by simp_all
next
  assume d: "rateGated pf w3 st3
       \<or> (guard pf (failsafeFlightStatus w3) (SystemSettings w3)
          \<and> \<not> holdRequested (failsafeFlightStatus w3) (CCGuidanceSettings w3)
          \<and> \<not> homeRequested (failsafeFlightStatus w3) (CCGuidanceSettings w3))"
  from request_free_call [OF d]
  show "desiredTarget (snd (ccguidanceTask pf w3 st3)) = desiredTarget st3"
    and "positionHoldLast (snd (ccguidanceTask pf w3 st3)) = positionHoldLast st3"
    by simp_all
qed

theorem hold_target_captured_once_witness:
  "positionHoldLast (run pf_ex (take 1 flight_ex) statics_init) = 0
   \<and> desiredTarget (run pf_ex (take 2 flight_ex) statics_init) = (48, 11, 541)
   \<and> desiredTarget (run pf_ex [world_at 1400 world_moved, world_at 1600 world_moved]
        (run pf_ex (take 2 flight_ex) statics_init)) = (48, 11, 541)
   \<and> desiredTarget (run pf_ex [world_at 1400 world_manual, world_at 1600 world_moved]
        (run pf_ex (take 2 flight_ex) statics_init)) = (481 / 10, 56 / 5, 341)
   \<and> desiredTarget (snd (ccguidanceTask pf_ex (world_at 1250 world_manual)
        (run pf_ex (take 2 flight_ex) statics_init))) = (48, 11, 541)
   \<and> positionHoldLast (snd (ccguidanceTask pf_ex (world_at 1250 world_manual)
        (run pf_ex (take 2 flight_ex) statics_init))) = 1"
proof -
  let ?s1 = "run pf_ex (take 1 flight_ex) statics_init"
  let ?s2 = "run pf_ex (take 2 flight_ex) statics_init"
  let ?ws = "[world_at 1400 world_moved, world_at 1600 world_moved]"
  let ?w1 = "world_at 1400 world_manual"
  let ?w2 = "world_at 1600 world_moved"
  let ?w3 = "world_at 1250 world_manual"
  note inst = hold_target_captured_once
    [of pf_ex "world_at 1200 world_ex" ?s1 ?s2 ?ws ?w1 ?s2 ?w2 ?w3 ?s2]
  have s2: "?s2 = snd (ccguidanceTask pf_ex (world_at 1200 world_ex) ?s1)"
    by (simp add: flight_ex_def)
  have p1: "positionHoldLast ?s1 = 0"
    unfolding flight_ex_first(1) using ex_first_call(1)
    by (simp add: task_target statics_init_def)
  have one: "desiredTarget ?s2 = (48, 11, 541) \<and> positionHoldLast ?s2 = 1"
    using inst [THEN conjunct1] flight_ex_first(4) p1 unfolding s2 [symmetric]
    by (simp add: ex_guard ex_hold ex_gps)
  have two: "desiredTarget (run pf_ex ?ws ?s2) = desiredTarget ?s2"
    using inst [THEN conjunct2, THEN conjunct1] one
    by (simp add: ex_guard ex_hold)
  have g1: "\<not> rateGated pf_ex ?w1 ?s2"
    by (rule ex_later_call(2) [OF ex_manual(1) flight_ex_statics(1)])
  have t1: "lastUpdateTime (snd (ccguidanceTask pf_ex ?w1 ?s2)) = 1400"
    using g1 by (simp add: task_time)
  have g2: "\<not> rateGated pf_ex ?w2 (snd (ccguidanceTask pf_ex ?w1 ?s2))"
    by (rule ex_later_call(3) [OF ex_period(3) t1])
  have three: "desiredTarget (run pf_ex [?w1, ?w2] ?s2) = (481 / 10, 56 / 5, 341)"
    using inst [THEN conjunct2, THEN conjunct2, THEN conjunct1] g1 g2
    by (simp add: ex_guard ex_hold ex_manual ex_gps)
  have g3: "rateGated pf_ex ?w3 ?s2"
    using flight_ex_statics(1) by (simp add: ex_gate ex_manual initUpdateTime_def)
  have four: "desiredTarget (snd (ccguidanceTask pf_ex ?w3 ?s2)) = desiredTarget ?s2
     \<and> positionHoldLast (snd (ccguidanceTask pf_ex ?w3 ?s2)) = positionHoldLast ?s2"
    using inst [THEN conjunct2, THEN conjunct2, THEN conjunct2] g3 by blast
  from p1 one two three four show ?thesis
    by simp
qed

text \<open>
  Two leaves that are followed by no new capture. The example flight holds the position
  (48, 11, 541). In the first, the pilot leaves PositionHold in a call that the rate gate
  holds back and is in PositionHold again, at another fix, in the next call, which passes
  the rate gate and the guard. In the second, on a platform that keeps the pilot's other
  mode in the guidance branch, the leave is seen by a call that passes the rate gate and
  the guard. In both the desired position after the re-entry is still (48, 11, 541) and
  not the fix of the re-entry, (48.1, 11.2, 341).
\<close>

theorem reentry_counterexample:
  "desiredTarget (run pf_ex (take 2 flight_ex) statics_init) = (48, 11, 541)
   \<and> \<not> holdRequested (failsafeFlightStatus world_manual) (CCGuidanceSettings world_manual)
   \<and> holdRequested (failsafeFlightStatus world_moved) (CCGuidanceSettings world_moved)
   \<and> (real_of_int (Latitude (GPSPosition world_moved)) * (1 / 10 ^ 7),
       real_of_int (Longitude (GPSPosition world_moved)) * (1 / 10 ^ 7),
       Altitude (GPSPosition world_moved) + GeoidSeparation (GPSPosition world_moved) + 1)
      = (481 / 10, 56 / 5, 341)
   \<and> rateGated pf_ex (world_at 1250 world_manual) (run pf_ex (take 2 flight_ex) statics_init)
   \<and> \<not> rateGated pf_ex (world_at 1400 world_moved)
        (run pf_ex [world_at 1250 world_manual] (run pf_ex (take 2 flight_ex) statics_init))
   \<and> guard pf_ex (failsafeFlightStatus world_moved) (SystemSettings world_moved)
   \<and> desiredTarget (run pf_ex [world_at 1250 world_manual, world_at 1400 world_moved]
        (run pf_ex (take 2 flight_ex) statics_init)) = (48, 11, 541)
   \<and> desiredTarget (run pf_third (take 2 flight_ex) statics_init) = (48, 11, 541)
   \<and> \<not> rateGated pf_third (world_at 1400 world_manual)
        (run pf_third (take 2 flight_ex) statics_init)
   \<and> guard pf_third (failsafeFlightStatus world_manual) (SystemSettings world_manual)
   \<and> \<not> rateGated pf_third (world_at 1600 world_moved)
        (run pf_third [world_at 1400 world_manual]
          (run pf_third (take 2 flight_ex) statics_init))
   \<and> guard pf_third (failsafeFlightStatus world_moved) (SystemSettings world_moved)
   \<and> desiredTarget (run pf_third [world_at 1400 world_manual, world_at 1600 world_moved]
        (run pf_third (take 2 flight_ex) statics_init)) = (48, 11, 541)"
proof -
  let ?s2 = "run pf_ex (take 2 flight_ex) statics_init"
  let ?t2 = "run pf_third (take 2 flight_ex) statics_init"
  let ?a1 = "snd (ccguidanceTask pf_ex (world_at 1250 world_manual) ?s2)"
  let ?b1 = "snd (ccguidanceTask pf_third (world_at 1400 world_manual) ?t2)"
  have nohold: "\<not> holdRequested (failsafeFlightStatus world_manual)
      (CCGuidanceSettings world_manual)"
    "\<not> homeRequested (failsafeFlightStatus world_manual) (CCGuidanceSettings world_manual)"
    by (simp_all add: holdRequested_def homeRequested_def failsafe_defs ex_world_defs)
  have fix2: "(real_of_int (Latitude (GPSPosition world_moved)) * (1 / 10 ^ 7),
       real_of_int (Longitude (GPSPosition world_moved)) * (1 / 10 ^ 7),
       Altitude (GPSPosition world_moved) + GeoidSeparation (GPSPosition world_moved) + 1)
      = (481 / 10, 56 / 5, 341)"
    by (simp add: ex_gps)
  have ga: "rateGated pf_ex (world_at 1250 world_manual) ?s2"
    using flight_ex_statics(1) by (simp add: ex_gate ex_manual initUpdateTime_def)
  have a1: "desiredTarget ?a1 = (48, 11, 541)" "positionHoldLast ?a1 = 1"
    using request_free_call [of pf_ex "world_at 1250 world_manual" ?s2] ga
    by (simp_all add: flight_ex_target)
  have ta: "lastUpdateTime ?a1 = 1200"
    using ga flight_ex_statics(1) by (simp add: task_time initUpdateTime_def)
  have ga2: "\<not> rateGated pf_ex (world_at 1400 world_moved) ?a1"
    by (rule ex_later_call(2) [OF ex_period(3) ta])
  have a2: "desiredTarget (snd (ccguidanceTask pf_ex (world_at 1400 world_moved) ?a1))
      = (48, 11, 541)"
    using held_call [of ?a1 "world_at 1400 world_moved" pf_ex] a1
    by (simp add: ex_hold)
  have third: "guard pf_third (failsafeFlightStatus world_manual) (SystemSettings world_manual)"
    "guard pf_third (failsafeFlightStatus world_moved) (SystemSettings world_moved)"
    by (simp_all add: guard_def pf_third_def ex_world_defs)
  have gb: "\<not> rateGated pf_third (world_at 1400 world_manual) ?t2"
    by (simp add: third_gate initUpdateTime_def flight_ex_target(5) ex_manual(1))
  have b1: "desiredTarget ?b1 = (48, 11, 541)" "positionHoldLast ?b1 = 1"
    using request_free_call [of pf_third "world_at 1400 world_manual" ?t2] third(1) nohold
    by (simp_all add: flight_ex_target)
  have tb: "lastUpdateTime ?b1 = 1400"
    using gb by (simp add: task_time)
  have gb2: "\<not> rateGated pf_third (world_at 1600 world_moved) ?b1"
    by (simp add: third_gate initUpdateTime_def tb ex_period(3))
  have b2: "desiredTarget (snd (ccguidanceTask pf_third (world_at 1600 world_moved) ?b1))
      = (48, 11, 541)"
    using held_call [of ?b1 "world_at 1600 world_moved" pf_third] b1
    by (simp add: ex_hold)
  from nohold(1) fix2 ga ga2 a2 gb gb2 b2 third show ?thesis
    by (simp add: flight_ex_target ex_hold ex_guard)
qed

subsection \<open>The range of the course\<close>

lemma RAD2DEG_pos: "0 < RAD2DEG"
  by (simp add: RAD2DEG_def)

lemma RAD2DEG_pi: "RAD2DEG * pi = 180"
  by (simp add: RAD2DEG_def)

lemma c_acos_range:
  assumes "c_acos q = Some a"
  shows "0 \<le> RAD2DEG * a \<and> RAD2DEG * a \<le> 180"
proof -
  from assms obtain x where x: "- 1 \<le> x" "x \<le> 1" and a: "a = arccos x"
    by (auto simp: c_acos_def split: option.splits if_splits)
  have lo: "0 \<le> a" and hi: "a \<le> pi"
    using x by (simp_all add: a arccos_lbound arccos_ubound)
  have "RAD2DEG * a \<le> RAD2DEG * pi"
    using hi RAD2DEG_pos by (simp add: mult_left_mono)
  with lo RAD2DEG_pos show ?thesis
    by (simp add: RAD2DEG_pi)
qed

lemma courseAngle_range: "0 \<le> courseAngle lat1 lat2 zeta \<and> courseAngle lat1 lat2 zeta \<le> 180"
proof (cases "c_acos (c_div
        (sin (DEG2RAD * lat2) - sin (DEG2RAD * lat1) * cos (DEG2RAD * zeta))
        (cos (DEG2RAD * lat1) * sin (DEG2RAD * zeta)))")
  case None
  then show ?thesis
    by (simp add: courseAngle_def nan_to_zero_def)
next
  case (Some a)
  with c_acos_range [OF Some] show ?thesis
    by (simp add: courseAngle_def nan_to_zero_def)
qed

lemma sphereCourse_sign:
  "sphereCourse lat1 long1 lat2 long2 zeta
     = (if 0 \<le> courseDiff long1 long2 then courseAngle lat1 lat2 zeta
        else - courseAngle lat1 lat2 zeta)"
  by (simp add: sphereCourse_def Let_def)

lemma courseAngle_nan:
  "courseAngle lat1 lat2 zeta
     = (case c_acos (c_div
          (sin (DEG2RAD * lat2) - sin (DEG2RAD * lat1) * cos (DEG2RAD * zeta))
          (cos (DEG2RAD * lat1) * sin (DEG2RAD * zeta))) of
        None \<Rightarrow> 0 | Some a \<Rightarrow> RAD2DEG * a)"
  by (simp add: courseAngle_def nan_to_zero_def split: option.splits)

text \<open>
  C3, as the code has it. For all arguments the result of \<^verbatim>\<open>sphereCourse\<close> lies in the
  closed interval from -180 to 180. The magnitude is 0 where \<^verbatim>\<open>acos\<close> gives no number
  and the arc cosine in degrees otherwise, so it is never negative; the result is the
  magnitude when the wrapped difference of the longitudes is not negative and its
  negation otherwise.
\<close>

theorem sphereCourse_closed_range:
  "- 180 \<le> sphereCourse lat1 long1 lat2 long2 zeta
   \<and> sphereCourse lat1 long1 lat2 long2 zeta \<le> 180
   \<and> courseAngle lat1 lat2 zeta
       = (case c_acos (c_div
            (sin (DEG2RAD * lat2) - sin (DEG2RAD * lat1) * cos (DEG2RAD * zeta))
            (cos (DEG2RAD * lat1) * sin (DEG2RAD * zeta))) of
          None \<Rightarrow> 0 | Some a \<Rightarrow> RAD2DEG * a)
   \<and> 0 \<le> courseAngle lat1 lat2 zeta
   \<and> sphereCourse lat1 long1 lat2 long2 zeta
       = (if 0 \<le> courseDiff long1 long2 then courseAngle lat1 lat2 zeta
          else - courseAngle lat1 lat2 zeta)"
  using courseAngle_range [of lat1 lat2 zeta] courseAngle_nan [of lat1 lat2 zeta]
  by (simp add: sphereCourse_sign)

lemma deg_simps:
  "DEG2RAD * 0 = 0" "DEG2RAD * 90 = pi / 2" "DEG2RAD * (- 90) = - (pi / 2)"
  by (simp_all add: DEG2RAD_def)

text \<open>
  The lower end is reached: from latitude 0, longitude 10 to the south pole at longitude
  0, a quarter of a great circle away, the magnitude is 180 and the difference of the
  longitudes is negative, so the result is -180 and not in the half-open interval.
\<close>

theorem sphereCourse_minus_180:
  "sphereCourse 0 10 (- 90) 0 90 = - 180
   \<and> \<not> (- 180 < sphereCourse 0 10 (- 90) 0 90 \<and> sphereCourse 0 10 (- 90) 0 90 \<le> 180)"
proof -
  have angle: "courseAngle 0 (- 90) 90 = 180"
    by (simp add: courseAngle_def deg_simps c_div_def c_acos_def nan_to_zero_def RAD2DEG_pi)
  have diff: "courseDiff 10 0 = - 10"
    by (simp add: courseDiff_def)
  have "sphereCourse 0 10 (- 90) 0 90 = - 180"
    by (simp add: sphereCourse_def angle diff)
  then show ?thesis by simp
qed

theorem sphereCourse_closed_range_witness:
  "sphereCourse 0 0 0 90 90 = 90 \<and> sphereCourse 0 0 0 0 0 = 0 \<and> sphereCourse 0 90 0 0 90 = - 90"
proof -
  have east: "courseAngle 0 0 90 = 90"
    using sphereCourse_closed_range [of 0 0 0 90 90]
    by (simp add: deg_simps c_div_def c_acos_def RAD2DEG_def)
  have nan: "courseAngle 0 0 0 = 0"
    using sphereCourse_closed_range [of 0 0 0 0 0]
    by (simp add: deg_simps c_div_def c_acos_def)
  have d: "courseDiff 0 90 = 90" "courseDiff 0 0 = 0" "courseDiff 90 0 = - 90"
    by (simp_all add: courseDiff_def)
  show ?thesis
    using sphereCourse_closed_range [of 0 0 0 90 90] sphereCourse_closed_range [of 0 0 0 0 0]
      sphereCourse_closed_range [of 0 90 0 0 90] east nan d
    by simp
qed

subsection \<open>The three steps of the course calculation\<close>

lemma selectTarget_time [simp]:
  "selectTarget fs cs gps (st\<lparr>lastUpdateTime := t\<rparr>) = (selectTarget fs cs gps st)\<lparr>lastUpdateTime := t\<rparr>"
  by (simp add: selectTarget_def)

lemma selectTarget_init [simp]:
  "positionDesiredNorth (selectTarget fs cs gps (initUpdateTime w st))
     = positionDesiredNorth (selectTarget fs cs gps st)"
  "positionDesiredEast (selectTarget fs cs gps (initUpdateTime w st))
     = positionDesiredEast (selectTarget fs cs gps st)"
  "positionDesiredDown (selectTarget fs cs gps (initUpdateTime w st))
     = positionDesiredDown (selectTarget fs cs gps st)"
  by (simp_all add: selectTarget_def)

lemma guidanceBranch_snapshot:
  "positionActualNorth (snd (guidanceBranch w fs cs st))
     = (if Status (GPSPosition w) = GPSPOSITION_STATUS_FIX3D \<and> calculateCourseStep st = 0
        then real_of_int (Latitude (GPSPosition w)) * (1 / 10 ^ 7) else positionActualNorth st)"
  "positionActualEast (snd (guidanceBranch w fs cs st))
     = (if Status (GPSPosition w) = GPSPOSITION_STATUS_FIX3D \<and> calculateCourseStep st = 0
        then real_of_int (Longitude (GPSPosition w)) * (1 / 10 ^ 7) else positionActualEast st)"
  by (simp_all add: guidanceBranch_def Let_def step_defs)

lemma guidanceBranch_distance:
  "DistanceToBase (snd (guidanceBranch w fs cs st))
     = (if Status (GPSPosition w) = GPSPOSITION_STATUS_FIX3D \<and> calculateCourseStep st = 1
        then sphereDistance (positionActualNorth st) (positionActualEast st)
               (positionDesiredNorth (selectTarget fs cs (GPSPosition w) st))
               (positionDesiredEast (selectTarget fs cs (GPSPosition w) st))
        else DistanceToBase st)"
  by (simp add: guidanceBranch_def Let_def step_defs)

lemma guidanceBranch_courseTrue:
  "courseTrue (snd (guidanceBranch w fs cs st))
     = (if Status (GPSPosition w) = GPSPOSITION_STATUS_FIX3D \<and> calculateCourseStep st = 2
        then sphereCourse (positionActualNorth st) (positionActualEast st)
               (positionDesiredNorth (selectTarget fs cs (GPSPosition w) st))
               (positionDesiredEast (selectTarget fs cs (GPSPosition w) st))
               (DistanceToBase st)
        else courseTrue st)"
  by (simp add: guidanceBranch_def Let_def step_defs)

lemma guidanceBranch_diffHeadingYaw:
  "diffHeadingYaw (snd (guidanceBranch w fs cs st))
     = (if Status (GPSPosition w) = GPSPOSITION_STATUS_FIX3D \<and> calculateCourseStep st = 1
           \<and> Groundspeed (GPSPosition w) > GroundspeedMinimal cs
        then wrap180 (AttitudeYaw (AttitudeActual w) - Heading (GPSPosition w))
        else diffHeadingYaw st)"
  by (simp add: guidanceBranch_def Let_def step_defs)

lemma guidanceBranch_updates:
  "StabilizationDesiredUpdates (fst (guidanceBranch w fs cs st))
     = (if Status (GPSPosition w) = GPSPOSITION_STATUS_FIX3D
           \<and> (calculateCourseStep st = 0 \<or> calculateCourseStep st = 1)
        then StabilizationDesiredUpdates w else Suc (StabilizationDesiredUpdates w))"
  by (simp add: guidanceBranch_def Let_def step_defs store_defs)

lemma outsideRadius_frame [simp]:
  "outsideRadius cs (st\<lparr>lastUpdateTime := t\<rparr>) = outsideRadius cs st"
  "outsideRadius cs (initUpdateTime w st) = outsideRadius cs st"
  by (simp_all add: outsideRadius_def)

lemma guidanceBranch_heading:
  assumes "Status (GPSPosition w) = GPSPOSITION_STATUS_FIX3D"
    and "calculateCourseStep st \<noteq> 0" and "calculateCourseStep st \<noteq> 1"
  shows "courseRelative (snd (guidanceBranch w fs cs st))
       = (if outsideRadius cs st
          then wrap180 (courseTrue (snd (guidanceBranch w fs cs st)) + diffHeadingYaw st)
          else courseRelative st)"
    and "Yaw (StabilizationDesired (fst (guidanceBranch w fs cs st)))
       = courseRelative (snd (guidanceBranch w fs cs st))"
  using assms by (simp_all add: guidanceBranch_def Let_def step_defs store_defs outsideRadius_def)

lemma task_guided:
  assumes "\<not> rateGated pf w st" and "guard pf (failsafeFlightStatus w) (SystemSettings w)"
  shows "ccguidanceTask pf w st
       = guidanceBranch (if failsafeActive w then FlightStatusSet (failsafeFlightStatus w) w else w)
           (failsafeFlightStatus w) (CCGuidanceSettings w)
           ((initUpdateTime w st)\<lparr>lastUpdateTime := TickCount w\<rparr>)"
  using assms by (simp add: ccguidanceTask_def guidanceUpdate_def Let_def)

lemma failsafe_world [simp]:
  "GPSPosition (if failsafeActive w then FlightStatusSet d w else w) = GPSPosition w"
  "AttitudeActual (if failsafeActive w then FlightStatusSet d w else w) = AttitudeActual w"
  "StabilizationDesiredUpdates (if failsafeActive w then FlightStatusSet d w else w)
     = StabilizationDesiredUpdates w"
  by (simp_all add: store_defs)

lemma task_step1:
  assumes gate: "\<not> rateGated pf w st"
    and pass: "guard pf (failsafeFlightStatus w) (SystemSettings w)"
    and fix3d: "Status (GPSPosition w) = GPSPOSITION_STATUS_FIX3D"
    and step: "calculateCourseStep st = 1"
  shows "DistanceToBase (snd (ccguidanceTask pf w st))
       = sphereDistance (positionActualNorth st) (positionActualEast st)
           (positionDesiredNorth (snd (ccguidanceTask pf w st)))
           (positionDesiredEast (snd (ccguidanceTask pf w st)))"
    and "diffHeadingYaw (snd (ccguidanceTask pf w st))
       = (if Groundspeed (GPSPosition w) > GroundspeedMinimal (CCGuidanceSettings w)
          then wrap180 (AttitudeYaw (AttitudeActual w) - Heading (GPSPosition w))
          else diffHeadingYaw st)"
    and "courseTrue (snd (ccguidanceTask pf w st)) = courseTrue st"
    and "StabilizationDesiredUpdates (fst (ccguidanceTask pf w st))
       = StabilizationDesiredUpdates w"
    and "positionActualNorth (snd (ccguidanceTask pf w st)) = positionActualNorth st"
    and "positionActualEast (snd (ccguidanceTask pf w st)) = positionActualEast st"
  using fix3d step
  by (simp_all add: task_guided [OF gate pass] guidanceBranch_distance guidanceBranch_target
      guidanceBranch_diffHeadingYaw guidanceBranch_courseTrue guidanceBranch_updates
      guidanceBranch_snapshot)

lemma task_step2:
  assumes gate: "\<not> rateGated pf w st"
    and pass: "guard pf (failsafeFlightStatus w) (SystemSettings w)"
    and fix3d: "Status (GPSPosition w) = GPSPOSITION_STATUS_FIX3D"
    and step: "calculateCourseStep st = 2"
  shows "courseTrue (snd (ccguidanceTask pf w st))
       = sphereCourse (positionActualNorth st) (positionActualEast st)
           (positionDesiredNorth (snd (ccguidanceTask pf w st)))
           (positionDesiredEast (snd (ccguidanceTask pf w st)))
           (DistanceToBase st)"
    and "DistanceToBase (snd (ccguidanceTask pf w st)) = DistanceToBase st"
    and "diffHeadingYaw (snd (ccguidanceTask pf w st)) = diffHeadingYaw st"
    and "StabilizationDesiredUpdates (fst (ccguidanceTask pf w st))
       = Suc (StabilizationDesiredUpdates w)"
    and "positionActualNorth (snd (ccguidanceTask pf w st)) = positionActualNorth st"
    and "positionActualEast (snd (ccguidanceTask pf w st)) = positionActualEast st"
  using fix3d step
  by (simp_all add: task_guided [OF gate pass] guidanceBranch_distance guidanceBranch_target
      guidanceBranch_diffHeadingYaw guidanceBranch_courseTrue guidanceBranch_updates
      guidanceBranch_snapshot)

lemma abs_trunc: "c_abs (c_trunc x) = \<lfloor>\<bar>x\<bar>\<rfloor>"
proof (cases "0 \<le> x")
  case True
  then have "0 \<le> \<lfloor>x\<rfloor>" by simp
  with True show ?thesis
    by (simp add: c_abs_def c_trunc_def)
next
  case False
  then have neg: "x < 0" by simp
  have flip: "\<lfloor>- x\<rfloor> = - \<lceil>x\<rceil>"
    by (simp add: ceiling_def)
  have le: "\<lceil>x\<rceil> \<le> 0"
    using neg by (simp add: ceiling_le_zero)
  show ?thesis
  proof (cases "\<lceil>x\<rceil> < 0")
    case True
    with neg flip show ?thesis
      by (simp add: c_abs_def c_trunc_def)
  next
    case False
    with le have "\<lceil>x\<rceil> = 0" by linarith
    with neg flip show ?thesis
      by (simp add: c_abs_def c_trunc_def)
  qed
qed

lemma task_heading:
  assumes gate: "\<not> rateGated pf w st"
    and pass: "guard pf (failsafeFlightStatus w) (SystemSettings w)"
    and fix3d: "Status (GPSPosition w) = GPSPOSITION_STATUS_FIX3D"
    and step: "calculateCourseStep st \<noteq> 0" "calculateCourseStep st \<noteq> 1"
  shows "courseRelative (snd (ccguidanceTask pf w st))
       = (if outsideRadius (CCGuidanceSettings w) st
          then wrap180 (courseTrue (snd (ccguidanceTask pf w st)) + diffHeadingYaw st)
          else courseRelative st)"
    and "Yaw (StabilizationDesired (fst (ccguidanceTask pf w st)))
       = courseRelative (snd (ccguidanceTask pf w st))"
  using fix3d step
  by (simp_all add: task_guided [OF gate pass] guidanceBranch_heading)

subsection \<open>The flight that turns its target, evaluated\<close>

lemmas turn_defs = flight_turn_def world_origin_def world_home_def world_at_def ex_world_defs

lemma sphere_values:
  "sphereDistance 0 0 0 0 = 0"
  "sphereDistance 0 0 0 90 = 90"
  "sphereCourse 0 0 0 0 90 = 90"
  by (simp_all add: sphereDistance_def sphereCourse_def courseAngle_def courseDiff_def
      deg_simps c_div_def c_acos_def nan_to_zero_def RAD2DEG_def)

lemma turn_after_step0:
  "calculateCourseStep (run pf_ex (take 2 flight_turn) statics_init) = 1"
  "DistanceToBase (run pf_ex (take 2 flight_turn) statics_init) = 0"
  "positionActualNorth (run pf_ex (take 2 flight_turn) statics_init) = 0"
  "positionActualEast (run pf_ex (take 2 flight_turn) statics_init) = 0"
  "lastUpdateTime (run pf_ex (take 2 flight_turn) statics_init) = 1200"
  by (simp_all add: turn_defs task_defs)

lemma turn_after_step1:
  "calculateCourseStep (run pf_ex (take 3 flight_turn) statics_init) = 2"
  "DistanceToBase (run pf_ex (take 3 flight_turn) statics_init) = 90"
  "positionActualNorth (run pf_ex (take 3 flight_turn) statics_init) = 0"
  "positionActualEast (run pf_ex (take 3 flight_turn) statics_init) = 0"
  "positionDesiredNorth (run pf_ex (take 3 flight_turn) statics_init) = 0"
  "positionDesiredEast (run pf_ex (take 3 flight_turn) statics_init) = 90"
  "lastUpdateTime (run pf_ex (take 3 flight_turn) statics_init) = 1400"
  by (simp_all add: turn_defs task_defs sphere_values)

lemma turn_after_step2:
  "calculateCourseStep (run pf_ex flight_turn statics_init) = 0"
  "DistanceToBase (run pf_ex flight_turn statics_init) = 90"
  "courseTrue (run pf_ex flight_turn statics_init) = 90"
  "positionDesiredNorth (run pf_ex flight_turn statics_init) = 0"
  "positionDesiredEast (run pf_ex flight_turn statics_init) = 0"
  by (simp_all add: turn_defs task_defs sphere_values)

lemma turn_calls:
  "run pf_ex (take 3 flight_turn) statics_init
     = snd (ccguidanceTask pf_ex (world_at 1400 world_home)
              (run pf_ex (take 2 flight_turn) statics_init))"
  "run pf_ex flight_turn statics_init
     = snd (ccguidanceTask pf_ex (world_at 1600 world_origin)
              (run pf_ex (take 3 flight_turn) statics_init))"
  by (simp_all add: flight_turn_def)

lemma turn_worlds:
  "guard pf_ex (failsafeFlightStatus world_home) (SystemSettings world_home)"
  "guard pf_ex (failsafeFlightStatus world_origin) (SystemSettings world_origin)"
  "Status (GPSPosition world_home) = GPSPOSITION_STATUS_FIX3D"
  "Status (GPSPosition world_origin) = GPSPOSITION_STATUS_FIX3D"
  "UpdatePeriod (CCGuidanceSettings world_home) = 100"
  "UpdatePeriod (CCGuidanceSettings world_origin) = 100"
  by (simp_all add: guard_def failsafe_defs world_origin_def world_home_def ex_world_defs)

text \<open>
  C9, as the code has it. In a call that passes the rate gate and the guard with a 3D
  fix: at step 1 the distance is computed, from the position saved by step 0 and the
  desired position of this call, next to the heading error (when the ground speed is
  above the minimum); the true course is left alone, no setpoint is written and the
  counter goes to 2. At step 2 only the true course is computed, from the same two
  positions and the distance that step 1 left; the distance and the heading error are
  left alone, and the same call goes on to write the setpoint and resets the counter.
\<close>

theorem distance_at_step1_course_at_step2:
  "(\<not> rateGated pf w st
      \<and> guard pf (failsafeFlightStatus w) (SystemSettings w)
      \<and> Status (GPSPosition w) = GPSPOSITION_STATUS_FIX3D
      \<and> calculateCourseStep st = 1 \<longrightarrow>
      DistanceToBase (snd (ccguidanceTask pf w st))
        = sphereDistance (positionActualNorth st) (positionActualEast st)
            (positionDesiredNorth (snd (ccguidanceTask pf w st)))
            (positionDesiredEast (snd (ccguidanceTask pf w st)))
      \<and> diffHeadingYaw (snd (ccguidanceTask pf w st))
        = (if Groundspeed (GPSPosition w) > GroundspeedMinimal (CCGuidanceSettings w)
           then wrap180 (AttitudeYaw (AttitudeActual w) - Heading (GPSPosition w))
           else diffHeadingYaw st)
      \<and> courseTrue (snd (ccguidanceTask pf w st)) = courseTrue st
      \<and> StabilizationDesiredUpdates (fst (ccguidanceTask pf w st))
        = StabilizationDesiredUpdates w
      \<and> calculateCourseStep (snd (ccguidanceTask pf w st)) = 2)
   \<and> (\<not> rateGated pf v su
      \<and> guard pf (failsafeFlightStatus v) (SystemSettings v)
      \<and> Status (GPSPosition v) = GPSPOSITION_STATUS_FIX3D
      \<and> calculateCourseStep su = 2 \<longrightarrow>
      courseTrue (snd (ccguidanceTask pf v su))
        = sphereCourse (positionActualNorth su) (positionActualEast su)
            (positionDesiredNorth (snd (ccguidanceTask pf v su)))
            (positionDesiredEast (snd (ccguidanceTask pf v su)))
            (DistanceToBase su)
      \<and> DistanceToBase (snd (ccguidanceTask pf v su)) = DistanceToBase su
      \<and> diffHeadingYaw (snd (ccguidanceTask pf v su)) = diffHeadingYaw su
      \<and> StabilizationDesiredUpdates (fst (ccguidanceTask pf v su))
        = Suc (StabilizationDesiredUpdates v)
      \<and> calculateCourseStep (snd (ccguidanceTask pf v su)) = 0)"
proof (intro conjI impI)
  assume a: "\<not> rateGated pf w st
      \<and> guard pf (failsafeFlightStatus w) (SystemSettings w)
      \<and> Status (GPSPosition w) = GPSPOSITION_STATUS_FIX3D
      \<and> calculateCourseStep st = 1"
  then have gate: "\<not> rateGated pf w st"
    and pass: "guard pf (failsafeFlightStatus w) (SystemSettings w)"
    and fix3d: "Status (GPSPosition w) = GPSPOSITION_STATUS_FIX3D"
    and step: "calculateCourseStep st = 1"
    by simp_all
  note one = task_step1 [OF gate pass fix3d step]
  show "DistanceToBase (snd (ccguidanceTask pf w st))
        = sphereDistance (positionActualNorth st) (positionActualEast st)
            (positionDesiredNorth (snd (ccguidanceTask pf w st)))
            (positionDesiredEast (snd (ccguidanceTask pf w st)))"
    by (rule one(1))
  show "diffHeadingYaw (snd (ccguidanceTask pf w st))
        = (if Groundspeed (GPSPosition w) > GroundspeedMinimal (CCGuidanceSettings w)
           then wrap180 (AttitudeYaw (AttitudeActual w) - Heading (GPSPosition w))
           else diffHeadingYaw st)"
    by (rule one(2))
  show "courseTrue (snd (ccguidanceTask pf w st)) = courseTrue st"
    by (rule one(3))
  show "StabilizationDesiredUpdates (fst (ccguidanceTask pf w st))
        = StabilizationDesiredUpdates w"
    by (rule one(4))
  show "calculateCourseStep (snd (ccguidanceTask pf w st)) = 2"
    using gate pass fix3d step by (simp add: task_step)
next
  assume b: "\<not> rateGated pf v su
      \<and> guard pf (failsafeFlightStatus v) (SystemSettings v)
      \<and> Status (GPSPosition v) = GPSPOSITION_STATUS_FIX3D
      \<and> calculateCourseStep su = 2"
  then have gate: "\<not> rateGated pf v su"
    and pass: "guard pf (failsafeFlightStatus v) (SystemSettings v)"
    and fix3d: "Status (GPSPosition v) = GPSPOSITION_STATUS_FIX3D"
    and step: "calculateCourseStep su = 2"
    by simp_all
  note two = task_step2 [OF gate pass fix3d step]
  show "courseTrue (snd (ccguidanceTask pf v su))
        = sphereCourse (positionActualNorth su) (positionActualEast su)
            (positionDesiredNorth (snd (ccguidanceTask pf v su)))
            (positionDesiredEast (snd (ccguidanceTask pf v su)))
            (DistanceToBase su)"
    by (rule two(1))
  show "DistanceToBase (snd (ccguidanceTask pf v su)) = DistanceToBase su"
    by (rule two(2))
  show "diffHeadingYaw (snd (ccguidanceTask pf v su)) = diffHeadingYaw su"
    by (rule two(3))
  show "StabilizationDesiredUpdates (fst (ccguidanceTask pf v su))
        = Suc (StabilizationDesiredUpdates v)"
    by (rule two(4))
  show "calculateCourseStep (snd (ccguidanceTask pf v su)) = 0"
    using gate pass fix3d step by (simp add: task_step)
qed

theorem distance_at_step1_course_at_step2_witness:
  "DistanceToBase (run pf_ex (take 3 flight_turn) statics_init) = sphereDistance 0 0 0 90
   \<and> calculateCourseStep (run pf_ex (take 3 flight_turn) statics_init) = 2
   \<and> courseTrue (run pf_ex flight_turn statics_init) = sphereCourse 0 0 0 0 90
   \<and> DistanceToBase (run pf_ex flight_turn statics_init) = 90
   \<and> calculateCourseStep (run pf_ex flight_turn statics_init) = 0"
proof -
  let ?s2 = "run pf_ex (take 2 flight_turn) statics_init"
  let ?s3 = "run pf_ex (take 3 flight_turn) statics_init"
  note inst = distance_at_step1_course_at_step2
    [of pf_ex "world_at 1400 world_home" ?s2 "world_at 1600 world_origin" ?s3]
  have g3: "\<not> rateGated pf_ex (world_at 1400 world_home) ?s2"
    by (rule ex_later_call(2) [OF turn_worlds(5) turn_after_step0(5)])
  have g4: "\<not> rateGated pf_ex (world_at 1600 world_origin) ?s3"
    by (rule ex_later_call(3) [OF turn_worlds(6) turn_after_step1(7)])
  have one: "DistanceToBase ?s3 = sphereDistance 0 0 0 90 \<and> calculateCourseStep ?s3 = 2"
    using inst [THEN conjunct1] g3 turn_after_step0(1,3,4) turn_after_step1(5,6)
    by (simp add: turn_worlds turn_calls(1) [symmetric])
  have two: "courseTrue (run pf_ex flight_turn statics_init) = sphereCourse 0 0 0 0 90
     \<and> DistanceToBase (run pf_ex flight_turn statics_init) = 90
     \<and> calculateCourseStep (run pf_ex flight_turn statics_init) = 0"
    using inst [THEN conjunct2] g4 turn_after_step1(1,2,3,4) turn_after_step2(4,5)
    by (simp add: turn_worlds turn_calls(2) [symmetric])
  from one two show ?thesis
    by simp
qed

text \<open>
  In the flight that turns its target, the call at step 1 takes the distance from 0 to
  90, so step 1 does not compute the heading error only; the call at step 2 leaves the
  distance at 90 although the desired position of that call is the saved position itself,
  at distance 0, so step 2 does not compute the distance.
\<close>

theorem step2_distance_counterexample:
  "calculateCourseStep (run pf_ex (take 2 flight_turn) statics_init) = 1
   \<and> DistanceToBase (run pf_ex (take 2 flight_turn) statics_init) = 0
   \<and> DistanceToBase (run pf_ex (take 3 flight_turn) statics_init) = 90
   \<and> calculateCourseStep (run pf_ex (take 3 flight_turn) statics_init) = 2
   \<and> DistanceToBase (run pf_ex flight_turn statics_init) = 90
   \<and> sphereDistance
        (positionActualNorth (run pf_ex (take 3 flight_turn) statics_init))
        (positionActualEast (run pf_ex (take 3 flight_turn) statics_init))
        (positionDesiredNorth (run pf_ex flight_turn statics_init))
        (positionDesiredEast (run pf_ex flight_turn statics_init)) = 0"
  by (simp add: turn_after_step0 turn_after_step1 turn_after_step2 sphere_values)

subsection \<open>The hold radius\<close>

lemma near_values:
  "\<not> rateGated pf_ex world_ex statics_near"
  "calculateCourseStep statics_near = 2"
  "DistanceToBase statics_near = 1 / 10000"
  "courseRelative statics_near = 42"
  "RadiusBase (CCGuidanceSettings world_ex) = 11"
  "StabilizationDesiredUpdates world_ex = 0"
  by (simp_all add: gate_defs statics_near_def ex_defs)

text \<open>
  C10. In a call that reaches the heading (rate gate and guard passed, 3D fix, counter
  neither 0 nor 1) the test of line 240 compares RadiusBase with the integer part of the
  absolute value of \<^verbatim>\<open>DistanceToBase * 111111\<close>: the product is truncated towards zero
  before the strict comparison. The yaw of the setpoint is assigned in either case: the
  newly wrapped relative course when the test holds, and the relative course kept from
  the earlier calculation when it fails.
\<close>

theorem radius_test_truncates:
  assumes gate: "\<not> rateGated pf w st"
    and pass: "guard pf (failsafeFlightStatus w) (SystemSettings w)"
    and fix3d: "Status (GPSPosition w) = GPSPOSITION_STATUS_FIX3D"
    and step: "calculateCourseStep st \<noteq> 0" "calculateCourseStep st \<noteq> 1"
  shows "(outsideRadius (CCGuidanceSettings w) st \<longleftrightarrow>
           RadiusBase (CCGuidanceSettings w) < real_of_int \<lfloor>\<bar>DistanceToBase st * 111111\<bar>\<rfloor>)
       \<and> Yaw (StabilizationDesired (fst (ccguidanceTask pf w st)))
           = (if RadiusBase (CCGuidanceSettings w) < real_of_int \<lfloor>\<bar>DistanceToBase st * 111111\<bar>\<rfloor>
              then wrap180 (courseTrue (snd (ccguidanceTask pf w st)) + diffHeadingYaw st)
              else courseRelative st)
       \<and> courseRelative (snd (ccguidanceTask pf w st))
           = Yaw (StabilizationDesired (fst (ccguidanceTask pf w st)))
       \<and> StabilizationDesiredUpdates (fst (ccguidanceTask pf w st))
           = Suc (StabilizationDesiredUpdates w)"
proof -
  have test: "outsideRadius (CCGuidanceSettings w) st \<longleftrightarrow>
      RadiusBase (CCGuidanceSettings w) < real_of_int \<lfloor>\<bar>DistanceToBase st * 111111\<bar>\<rfloor>"
    by (simp add: outsideRadius_def abs_trunc)
  have written: "StabilizationDesiredUpdates (fst (ccguidanceTask pf w st))
      = Suc (StabilizationDesiredUpdates w)"
    using fix3d step by (simp add: task_guided [OF gate pass] guidanceBranch_updates)
  from task_heading [OF gate pass fix3d step] test written show ?thesis
    by simp
qed

theorem radius_test_truncates_witness:
  "RadiusBase (CCGuidanceSettings world_ex) < DistanceToBase statics_near * 111111
   \<and> \<not> outsideRadius (CCGuidanceSettings world_ex) statics_near
   \<and> Yaw (StabilizationDesired (fst (ccguidanceTask pf_ex world_ex statics_near))) = 42
   \<and> courseRelative (snd (ccguidanceTask pf_ex world_ex statics_near)) = 42
   \<and> StabilizationDesiredUpdates (fst (ccguidanceTask pf_ex world_ex statics_near)) = 1"
proof -
  have step: "calculateCourseStep statics_near \<noteq> 0" "calculateCourseStep statics_near \<noteq> 1"
    by (simp_all add: near_values)
  have trunc: "\<lfloor>\<bar>DistanceToBase statics_near * 111111\<bar>\<rfloor> = 11"
    by (simp add: near_values)
  have more: "RadiusBase (CCGuidanceSettings world_ex) < DistanceToBase statics_near * 111111"
    by (simp add: near_values)
  from radius_test_truncates [OF near_values(1) ex_guard(1) ex_fix(1) step] trunc more
  show ?thesis
    by (simp add: near_values)
qed

end
